theory Spec2Isabelle
  imports Main "HOL-Library.Word"
begin

unbundle bit_operations_syntax

section \<open>Exceptions\<close>

text \<open>
  The exceptions that the calls made by \<^verbatim>\<open>handle_message\<close> can raise. All of them
  derive from Python's \<^verbatim>\<open>Exception\<close> except \<^verbatim>\<open>asyncio.CancelledError\<close>, which derives
  from \<^verbatim>\<open>BaseException\<close> only and is therefore not caught by \<^verbatim>\<open>except Exception\<close>.
\<close>

datatype exn =
    AttributeError
  | UnicodeEncodeError
  | ValueError
  | OperationalError
  | OverflowError
  | TelegramError
  | CancelledError

fun is_Exception :: "exn \<Rightarrow> bool" where
  "is_Exception CancelledError = False"
| "is_Exception _ = True"

section \<open>Python strings\<close>

text \<open>
  A Python \<^verbatim>\<open>str\<close> is a sequence of Unicode code points, and \<^verbatim>\<open>len\<close> counts code
  points; it is modelled as a list of natural numbers. \<open>ustr\<close> turns an ASCII literal
  into such a list.
\<close>

type_synonym pystr = "nat list"

definition ustr :: "string \<Rightarrow> pystr" where
  "ustr s = map of_char s"

text \<open>
  \<^verbatim>\<open>str.isspace\<close> for one code point: the code points that \<^verbatim>\<open>str.split()\<close> and
  \<^verbatim>\<open>str.strip()\<close> (both called without argument) treat as whitespace.
\<close>

definition isspace :: "nat \<Rightarrow> bool" where
  "isspace c \<longleftrightarrow>
     (9 \<le> c \<and> c \<le> 13) \<or> (28 \<le> c \<and> c \<le> 32) \<or> c = 133 \<or> c = 160 \<or> c = 5760 \<or>
     (8192 \<le> c \<and> c \<le> 8202) \<or> c = 8232 \<or> c = 8233 \<or> c = 8239 \<or> c = 8287 \<or> c = 12288"

text \<open>\<^verbatim>\<open>text.strip()\<close>: whitespace removed at both ends.\<close>

definition strip :: "pystr \<Rightarrow> pystr" where
  "strip s = rev (dropWhile isspace (rev (dropWhile isspace s)))"

text \<open>
  \<^verbatim>\<open>text.split()\<close>: the maximal runs of non-whitespace code points, in order. The first
  argument of \<open>split_acc\<close> is the token being read.
\<close>

fun split_acc :: "pystr \<Rightarrow> pystr \<Rightarrow> pystr list" where
  "split_acc cur [] = (if cur = [] then [] else [cur])"
| "split_acc cur (c # cs) =
     (if isspace c then (if cur = [] then split_acc [] cs else cur # split_acc [] cs)
      else split_acc (cur @ [c]) cs)"

definition split :: "pystr \<Rightarrow> pystr list" where
  "split s = split_acc [] s"

text \<open>\<^verbatim>\<open>sep.join(tokens)\<close>.\<close>

fun join :: "pystr \<Rightarrow> pystr list \<Rightarrow> pystr" where
  "join sep [] = []"
| "join sep [x] = x"
| "join sep (x # y # ys) = x @ sep @ join sep (y # ys)"

text \<open>
  \<^verbatim>\<open>text.lower()\<close>. On a string of ASCII code points only, CPython maps \<^verbatim>\<open>A\<close>..\<^verbatim>\<open>Z\<close> to
  \<^verbatim>\<open>a\<close>..\<^verbatim>\<open>z\<close> and leaves the rest. On any other string the result is given by the
  Unicode case-mapping tables of the interpreter, which are not part of the repository:
  they are the parameter \<open>ulower\<close>.
\<close>

definition ascii_lower :: "nat \<Rightarrow> nat" where
  "ascii_lower c = (if 65 \<le> c \<and> c \<le> 90 then c + 32 else c)"

definition lower :: "(pystr \<Rightarrow> pystr) \<Rightarrow> pystr \<Rightarrow> pystr" where
  "lower ulower s = (if list_all (\<lambda>c. c < 128) s then map ascii_lower s else ulower s)"

text \<open>The normalisation of \<^verbatim>\<open>generate_message_hash\<close>: \<^verbatim>\<open>' '.join(text.lower().split())\<close>.\<close>

definition normalized_text :: "(pystr \<Rightarrow> pystr) \<Rightarrow> pystr \<Rightarrow> pystr" where
  "normalized_text ulower text = join [32] (split (lower ulower text))"

text \<open>
  \<^verbatim>\<open>normalized_text.encode()\<close>: UTF-8. A surrogate code point cannot be encoded and
  raises \<^verbatim>\<open>UnicodeEncodeError\<close>; a number beyond \<^verbatim>\<open>0x10FFFF\<close> is no code point of a
  Python string and is rejected the same way.
\<close>

definition utf8_char :: "nat \<Rightarrow> exn + 8 word list" where
  "utf8_char c =
     (if c < 128 then Inr [of_nat c]
      else if c < 2048 then Inr [of_nat (192 + c div 64), of_nat (128 + c mod 64)]
      else if c < 65536 then
        (if 55296 \<le> c \<and> c \<le> 57343 then Inl UnicodeEncodeError
         else Inr [of_nat (224 + c div 4096), of_nat (128 + c div 64 mod 64),
                   of_nat (128 + c mod 64)])
      else if c < 1114112 then
        Inr [of_nat (240 + c div 262144), of_nat (128 + c div 4096 mod 64),
             of_nat (128 + c div 64 mod 64), of_nat (128 + c mod 64)]
      else Inl UnicodeEncodeError)"

fun encode :: "pystr \<Rightarrow> exn + 8 word list" where
  "encode [] = Inr []"
| "encode (c # cs) =
     (case utf8_char c of
        Inl e \<Rightarrow> Inl e
      | Inr bs \<Rightarrow> (case encode cs of Inl e \<Rightarrow> Inl e | Inr rest \<Rightarrow> Inr (bs @ rest)))"

section \<open>The digest\<close>

text \<open>
  \<^verbatim>\<open>hashlib.md5(data).hexdigest()\<close>: MD5 as RFC 1321 defines it, on 32-bit words that
  wrap around, little-endian throughout.
\<close>

definition md5_K :: "32 word list" where
  "md5_K =
    [0xd76aa478, 0xe8c7b756, 0x242070db, 0xc1bdceee, 0xf57c0faf, 0x4787c62a, 0xa8304613, 0xfd469501,
     0x698098d8, 0x8b44f7af, 0xffff5bb1, 0x895cd7be, 0x6b901122, 0xfd987193, 0xa679438e, 0x49b40821,
     0xf61e2562, 0xc040b340, 0x265e5a51, 0xe9b6c7aa, 0xd62f105d, 0x02441453, 0xd8a1e681, 0xe7d3fbc8,
     0x21e1cde6, 0xc33707d6, 0xf4d50d87, 0x455a14ed, 0xa9e3e905, 0xfcefa3f8, 0x676f02d9, 0x8d2a4c8a,
     0xfffa3942, 0x8771f681, 0x6d9d6122, 0xfde5380c, 0xa4beea44, 0x4bdecfa9, 0xf6bb4b60, 0xbebfbc70,
     0x289b7ec6, 0xeaa127fa, 0xd4ef3085, 0x04881d05, 0xd9d4d039, 0xe6db99e5, 0x1fa27cf8, 0xc4ac5665,
     0xf4292244, 0x432aff97, 0xab9423a7, 0xfc93a039, 0x655b59c3, 0x8f0ccc92, 0xffeff47d, 0x85845dd1,
     0x6fa87e4f, 0xfe2ce6e0, 0xa3014314, 0x4e0811a1, 0xf7537e82, 0xbd3af235, 0x2ad7d2bb, 0xeb86d391]"

definition md5_S :: "nat list" where
  "md5_S =
    [7, 12, 17, 22, 7, 12, 17, 22, 7, 12, 17, 22, 7, 12, 17, 22,
     5, 9, 14, 20, 5, 9, 14, 20, 5, 9, 14, 20, 5, 9, 14, 20,
     4, 11, 16, 23, 4, 11, 16, 23, 4, 11, 16, 23, 4, 11, 16, 23,
     6, 10, 15, 21, 6, 10, 15, 21, 6, 10, 15, 21, 6, 10, 15, 21]"

definition leftrotate :: "32 word \<Rightarrow> nat \<Rightarrow> 32 word" where
  "leftrotate x n = push_bit n x OR drop_bit (32 - n) x"

text \<open>Padding: the byte \<^verbatim>\<open>0x80\<close>, zeros up to 56 modulo 64, the bit length on 8 bytes.\<close>

definition le_bytes :: "nat \<Rightarrow> nat \<Rightarrow> 8 word list" where
  "le_bytes k n = map (\<lambda>i. of_nat (n div 256 ^ i mod 256)) [0..<k]"

definition md5_pad :: "8 word list \<Rightarrow> 8 word list" where
  "md5_pad bs =
     bs @ [0x80] @ replicate ((119 - length bs mod 64) mod 64) 0 @
     le_bytes 8 (8 * length bs mod 2 ^ 64)"

fun le_words :: "8 word list \<Rightarrow> 32 word list" where
  "le_words (b0 # b1 # b2 # b3 # bs) =
     (ucast b0 OR push_bit 8 (ucast b1) OR push_bit 16 (ucast b2) OR push_bit 24 (ucast b3))
     # le_words bs"
| "le_words _ = []"

type_synonym md5_state = "32 word \<times> 32 word \<times> 32 word \<times> 32 word"

definition md5_step :: "32 word list \<Rightarrow> md5_state \<Rightarrow> nat \<Rightarrow> md5_state" where
  "md5_step M st i =
     (case st of (a, b, c, d) \<Rightarrow>
        let f = (if i < 16 then (b AND c) OR (NOT b AND d)
                 else if i < 32 then (d AND b) OR (NOT d AND c)
                 else if i < 48 then b XOR c XOR d
                 else c XOR (b OR NOT d));
            g = (if i < 16 then i
                 else if i < 32 then (5 * i + 1) mod 16
                 else if i < 48 then (3 * i + 5) mod 16
                 else (7 * i) mod 16);
            f' = f + a + md5_K ! i + M ! g
        in (d, b + leftrotate f' (md5_S ! i), b, c))"

definition md5_block :: "md5_state \<Rightarrow> 32 word list \<Rightarrow> md5_state" where
  "md5_block st M =
     (case st of (a0, b0, c0, d0) \<Rightarrow>
        (case foldl (md5_step M) st [0..<64] of (a, b, c, d) \<Rightarrow>
           (a0 + a, b0 + b, c0 + c, d0 + d)))"

definition md5_init :: md5_state where
  "md5_init = (0x67452301, 0xefcdab89, 0x98badcfe, 0x10325476)"

definition md5 :: "8 word list \<Rightarrow> 8 word list" where
  "md5 bs =
     (let ws = le_words (md5_pad bs);
          st = foldl (\<lambda>st k. md5_block st (take 16 (drop (16 * k) ws))) md5_init
                 [0..<length ws div 16]
      in case st of (a, b, c, d) \<Rightarrow>
           concat (map (\<lambda>w. le_bytes 4 (unat w)) [a, b, c, d]))"

definition hexchar :: "nat \<Rightarrow> char" where
  "hexchar n = ''0123456789abcdef'' ! (n mod 16)"

definition hexdigest :: "8 word list \<Rightarrow> string" where
  "hexdigest bs = concat (map (\<lambda>b. [hexchar (unat b div 16), hexchar (unat b mod 16)]) bs)"

text \<open>\<^verbatim>\<open>generate_message_hash\<close>.\<close>

definition generate_message_hash :: "(pystr \<Rightarrow> pystr) \<Rightarrow> pystr \<Rightarrow> exn + string" where
  "generate_message_hash ulower text =
     (case encode (normalized_text ulower text) of
        Inl e \<Rightarrow> Inl e
      | Inr bs \<Rightarrow> Inr (hexdigest (md5 bs)))"

section \<open>Calendar and clocks\<close>

text \<open>
  A \<^verbatim>\<open>datetime\<close> object holds the fields of a civil time. The handler reads the clock
  three times: SQLite evaluates \<^verbatim>\<open>datetime('now', ...)\<close> in UTC, in the \<^verbatim>\<open>SELECT\<close> and
  in the \<^verbatim>\<open>DELETE\<close>, and Python evaluates \<^verbatim>\<open>datetime.now(tz_jakarta)\<close>. A clock reading is
  Unix time, the whole seconds since 1970-01-01 00:00:00 UTC, a natural number.

  Both libraries use the proleptic Gregorian calendar. The conversion below counts days
  from 1969-01-01, one year before the Unix epoch, so that the instant seven days before
  any clock reading is covered.
\<close>

record datetime =
  year :: nat
  month :: nat
  day :: nat
  hour :: nat
  minute :: nat
  second :: nat

definition is_leap :: "nat \<Rightarrow> bool" where
  "is_leap y \<longleftrightarrow> y mod 4 = 0 \<and> (y mod 100 \<noteq> 0 \<or> y mod 400 = 0)"

definition days_in_year :: "nat \<Rightarrow> nat" where
  "days_in_year y = (if is_leap y then 366 else 365)"

definition days_in_month :: "nat \<Rightarrow> nat \<Rightarrow> nat" where
  "days_in_month y m =
     (if m = 2 then (if is_leap y then 29 else 28)
      else if m = 4 \<or> m = 6 \<or> m = 9 \<or> m = 11 then 30 else 31)"

text \<open>The year that holds day \<open>n\<close> counted from the first day of year \<open>y\<close>, and the day
  within that year.\<close>

function year_from :: "nat \<Rightarrow> nat \<Rightarrow> nat \<times> nat" where
  "year_from y n =
     (if n < days_in_year y then (y, n) else year_from (Suc y) (n - days_in_year y))"
  by pat_completeness auto
termination
  by (relation "measure snd") (auto simp: days_in_year_def)

text \<open>The month that holds day \<open>n\<close> counted from the first day of month \<open>m\<close> of year
  \<open>y\<close>, and the day within that month.\<close>

function month_from :: "nat \<Rightarrow> nat \<Rightarrow> nat \<Rightarrow> nat \<times> nat" where
  "month_from y m n =
     (if 12 \<le> m \<or> n < days_in_month y m then (m, n)
      else month_from y (Suc m) (n - days_in_month y m))"
  by pat_completeness auto
termination
  by (relation "measure (\<lambda>(y, m, n). 12 - m)") auto

text \<open>The civil time \<open>T\<close> seconds after 1969-01-01 00:00:00.\<close>

definition civil :: "nat \<Rightarrow> datetime" where
  "civil T =
     (case year_from 1969 (T div 86400) of (y, r) \<Rightarrow>
        (case month_from y 1 r of (m, d) \<Rightarrow>
           \<lparr>year = y, month = m, day = Suc d,
            hour = T mod 86400 div 3600, minute = T mod 3600 div 60, second = T mod 60\<rparr>))"

text \<open>The seconds from 1969-01-01 to the Unix epoch, and the offset of
  \<^verbatim>\<open>Asia/Jakarta\<close> (UTC+7, no daylight saving time).\<close>

definition epoch_shift :: nat where
  "epoch_shift = 31536000"

definition jakarta_offset :: nat where
  "jakarta_offset = 25200"

text \<open>
  \<^verbatim>\<open>strftime\<close> with the two patterns of the handler, \<^verbatim>\<open>'%Y-%m-%d %H:%M:%S'\<close> for the
  database and \<^verbatim>\<open>'%Y/%m/%d %H:%M:%S'\<close> for the notice. The year is rendered on four
  digits, which is what every Python version does for the years 1000 to 9999.
\<close>

definition digit_char :: "nat \<Rightarrow> char" where
  "digit_char n = ''0123456789'' ! (n mod 10)"

definition pad2 :: "nat \<Rightarrow> string" where
  "pad2 n = [digit_char (n div 10), digit_char n]"

definition pad4 :: "nat \<Rightarrow> string" where
  "pad4 n = [digit_char (n div 1000), digit_char (n div 100), digit_char (n div 10), digit_char n]"

definition strftime_sep :: "char \<Rightarrow> datetime \<Rightarrow> string" where
  "strftime_sep sep dt =
     pad4 (year dt) @ [sep] @ pad2 (month dt) @ [sep] @ pad2 (day dt) @ '' '' @
     pad2 (hour dt) @ '':'' @ pad2 (minute dt) @ '':'' @ pad2 (second dt)"

definition strftime_db :: "datetime \<Rightarrow> string" where
  "strftime_db dt = strftime_sep (CHR ''-'') dt"

definition strftime_display :: "datetime \<Rightarrow> string" where
  "strftime_display dt = strftime_sep (CHR ''/'') dt"

text \<open>
  \<^verbatim>\<open>datetime.now(tz_jakarta)\<close> at clock reading \<open>t\<close>. Python has no \<^verbatim>\<open>datetime\<close> beyond
  the year 9999: the conversion of the reading raises \<^verbatim>\<open>ValueError\<close>, the shift to the
  time zone \<^verbatim>\<open>OverflowError\<close>.
\<close>

definition datetime_now_jakarta :: "nat \<Rightarrow> exn + datetime" where
  "datetime_now_jakarta t =
     (if 9999 < year (civil (epoch_shift + t)) then Inl ValueError
      else if 9999 < year (civil (epoch_shift + t + jakarta_offset)) then Inl OverflowError
      else Inr (civil (epoch_shift + t + jakarta_offset)))"

text \<open>
  SQLite's \<^verbatim>\<open>datetime('now', '-1 day')\<close> and \<^verbatim>\<open>datetime("now", "-7 days")\<close> at clock
  reading \<open>t\<close>: the UTC time \<open>back\<close> seconds earlier, as text; \<^verbatim>\<open>NULL\<close> beyond the year
  9999.
\<close>

definition sqlite_datetime_now :: "nat \<Rightarrow> nat \<Rightarrow> string option" where
  "sqlite_datetime_now t back =
     (let dt = civil (epoch_shift + t - back)
      in if 9999 < year dt then None else Some (strftime_db dt))"

text \<open>
  The comparison of two \<^verbatim>\<open>TEXT\<close> values in SQLite (collation \<^verbatim>\<open>BINARY\<close>): the first
  differing character decides, a proper prefix is smaller.
\<close>

fun text_less :: "string \<Rightarrow> string \<Rightarrow> bool" where
  "text_less [] [] = False"
| "text_less [] (y # ys) = True"
| "text_less (x # xs) [] = False"
| "text_less (x # xs) (y # ys) =
     ((of_char x :: nat) < of_char y \<or> (x = y \<and> text_less xs ys))"

text \<open>
  \<^verbatim>\<open>datetime.strptime(s, '%Y-%m-%d %H:%M:%S')\<close>. The pattern is matched as the regular
  expression that \<^verbatim>\<open>_strptime\<close> builds from it: four digits for the year; one or two
  digits for the other fields, the two-digit alternatives first; the blank of the pattern
  matches one or more whitespace characters; nothing may remain. The fields found build a
  \<^verbatim>\<open>datetime\<close>, whose constructor checks their ranges. Every failure is a \<^verbatim>\<open>ValueError\<close>.
\<close>

definition is_digit :: "char \<Rightarrow> bool" where
  "is_digit c \<longleftrightarrow> 48 \<le> (of_char c :: nat) \<and> (of_char c :: nat) \<le> 57"

definition digit_val :: "char \<Rightarrow> nat" where
  "digit_val c = of_char c - 48"

fun re_Y :: "string \<Rightarrow> (nat \<times> string) option" where
  "re_Y (a # b # c # d # r) =
     (if is_digit a \<and> is_digit b \<and> is_digit c \<and> is_digit d
      then Some (1000 * digit_val a + 100 * digit_val b + 10 * digit_val c + digit_val d, r)
      else None)"
| "re_Y _ = None"

text \<open>A field of one or two digits: \<open>two\<close> describes the two-digit alternatives, which
  are tried first, \<open>one\<close> the one-digit alternative.\<close>

fun re_num :: "(nat \<Rightarrow> nat \<Rightarrow> bool) \<Rightarrow> (nat \<Rightarrow> bool) \<Rightarrow> string \<Rightarrow> (nat \<times> string) option" where
  "re_num two one (a # b # r) =
     (if is_digit a \<and> is_digit b \<and> two (digit_val a) (digit_val b)
      then Some (10 * digit_val a + digit_val b, r)
      else if is_digit a \<and> one (digit_val a) then Some (digit_val a, b # r)
      else None)"
| "re_num two one [a] = (if is_digit a \<and> one (digit_val a) then Some (digit_val a, []) else None)"
| "re_num two one [] = None"

definition re_m :: "string \<Rightarrow> (nat \<times> string) option" where
  "re_m = re_num (\<lambda>x y. (x = 1 \<and> y \<le> 2) \<or> (x = 0 \<and> 1 \<le> y)) (\<lambda>x. 1 \<le> x)"

definition re_d :: "string \<Rightarrow> (nat \<times> string) option" where
  "re_d s =
     (case re_num (\<lambda>x y. (x = 3 \<and> y \<le> 1) \<or> x = 1 \<or> x = 2 \<or> (x = 0 \<and> 1 \<le> y)) (\<lambda>x. 1 \<le> x) s of
        Some v \<Rightarrow> Some v
      | None \<Rightarrow>
          (case s of
             sp # a # r \<Rightarrow>
               (if sp = CHR '' '' \<and> is_digit a \<and> 1 \<le> digit_val a then Some (digit_val a, r)
                else None)
           | _ \<Rightarrow> None))"

definition re_H :: "string \<Rightarrow> (nat \<times> string) option" where
  "re_H = re_num (\<lambda>x y. (x = 2 \<and> y \<le> 3) \<or> x \<le> 1) (\<lambda>x. True)"

definition re_M :: "string \<Rightarrow> (nat \<times> string) option" where
  "re_M = re_num (\<lambda>x y. x \<le> 5) (\<lambda>x. True)"

definition re_S :: "string \<Rightarrow> (nat \<times> string) option" where
  "re_S = re_num (\<lambda>x y. (x = 6 \<and> y \<le> 1) \<or> x \<le> 5) (\<lambda>x. True)"

fun re_lit :: "char \<Rightarrow> string \<Rightarrow> string option" where
  "re_lit c (x # r) = (if x = c then Some r else None)"
| "re_lit c [] = None"

fun re_spaces :: "string \<Rightarrow> string option" where
  "re_spaces (x # r) =
     (if isspace (of_char x) then Some (dropWhile (\<lambda>c. isspace (of_char c)) r) else None)"
| "re_spaces [] = None"

definition strptime_match :: "string \<Rightarrow> datetime option" where
  "strptime_match s =
     Option.bind (re_Y s) (\<lambda>(y, s1).
     Option.bind (re_lit (CHR ''-'') s1) (\<lambda>s2.
     Option.bind (re_m s2) (\<lambda>(m, s3).
     Option.bind (re_lit (CHR ''-'') s3) (\<lambda>s4.
     Option.bind (re_d s4) (\<lambda>(d, s5).
     Option.bind (re_spaces s5) (\<lambda>s6.
     Option.bind (re_H s6) (\<lambda>(h, s7).
     Option.bind (re_lit (CHR '':'') s7) (\<lambda>s8.
     Option.bind (re_M s8) (\<lambda>(mi, s9).
     Option.bind (re_lit (CHR '':'') s9) (\<lambda>s10.
     Option.bind (re_S s10) (\<lambda>(sec, s11).
       if s11 = [] then
         Some \<lparr>year = y, month = m, day = d, hour = h, minute = mi, second = sec\<rparr>
       else None)))))))))))"

definition valid_datetime :: "datetime \<Rightarrow> bool" where
  "valid_datetime dt \<longleftrightarrow>
     1 \<le> year dt \<and> year dt \<le> 9999 \<and> 1 \<le> month dt \<and> month dt \<le> 12 \<and>
     1 \<le> day dt \<and> day dt \<le> days_in_month (year dt) (month dt) \<and>
     hour dt \<le> 23 \<and> minute dt \<le> 59 \<and> second dt \<le> 59"

definition strptime_db :: "string \<Rightarrow> exn + datetime" where
  "strptime_db s =
     (case strptime_match s of
        None \<Rightarrow> Inl ValueError
      | Some dt \<Rightarrow> if valid_datetime dt then Inr dt else Inl ValueError)"

section \<open>The table \<^verbatim>\<open>messages\<close>\<close>

text \<open>
  One row of the table, with the columns of \<^verbatim>\<open>setup_database\<close>; \<open>row_id\<close> is the column
  \<^verbatim>\<open>id\<close>. The table is the list of its rows, and \<open>seq\<close> is the largest \<^verbatim>\<open>id\<close> handed out
  so far (\<^verbatim>\<open>AUTOINCREMENT\<close>). The handler works through one connection; the state below
  is what that connection sees, so a statement that has run is visible whether or not the
  \<^verbatim>\<open>commit\<close> that follows succeeds.

  \<open>trace\<close> records, in order, what the handler has done to the outside: the statements
  it ran, the replies it sent and the lines it logged.
\<close>

record row =
  row_id :: nat
  chat_id :: int
  message_hash :: string
  message_text :: pystr
  user_id :: int
  timestamp :: string
  user_name :: pystr

datatype event =
    Select int string "string option"
  | Insert row
  | Commit
  | Delete "string option"
  | Reply int pystr
  | LogInfo int
  | LogError exn

record world =
  rows :: "row list"
  seq :: nat
  trace :: "event list"

text \<open>
  What one call of the handler meets outside: the three clock readings, and for each call
  that can fail the exception it raises, if any.
\<close>

datatype op = OpSelect | OpReply | OpInsert | OpCommitInsert | OpDelete | OpCommitDelete

record env =
  select_now :: nat
  python_now :: nat
  delete_now :: nat
  fault :: "op \<Rightarrow> exn option"

text \<open>Sequencing: an exception ends the body, the state reached so far remains.\<close>

definition and_then ::
  "(exn + 'a) \<times> world \<Rightarrow> ('a \<Rightarrow> world \<Rightarrow> (exn + 'b) \<times> world) \<Rightarrow> (exn + 'b) \<times> world" where
  "and_then m f = (case m of (Inl e, w) \<Rightarrow> (Inl e, w) | (Inr x, w) \<Rightarrow> f x w)"

text \<open>
  The conditions \<^verbatim>\<open>timestamp > datetime('now', '-1 day')\<close> of the \<^verbatim>\<open>SELECT\<close> and
  \<^verbatim>\<open>timestamp < datetime("now", "-7 days")\<close> of the \<^verbatim>\<open>DELETE\<close>: comparisons of texts,
  never true of \<^verbatim>\<open>NULL\<close>.
\<close>

definition later_than :: "string option \<Rightarrow> string \<Rightarrow> bool" where
  "later_than bound ts = (case bound of None \<Rightarrow> False | Some b \<Rightarrow> text_less b ts)"

definition earlier_than :: "string option \<Rightarrow> string \<Rightarrow> bool" where
  "earlier_than bound ts = (case bound of None \<Rightarrow> False | Some b \<Rightarrow> text_less ts b)"

text \<open>The \<^verbatim>\<open>SELECT\<close> with \<^verbatim>\<open>fetchone()\<close>: the first row of the chat with the hash whose time
  stamp is later than one day before now.\<close>

definition select_recent :: "int \<Rightarrow> string \<Rightarrow> string option \<Rightarrow> row list \<Rightarrow> row option" where
  "select_recent c h bound rs =
     find (\<lambda>r. chat_id r = c \<and> message_hash r = h \<and> later_than bound (timestamp r)) rs"

definition db_select :: "env \<Rightarrow> int \<Rightarrow> string \<Rightarrow> world \<Rightarrow> (exn + row option) \<times> world" where
  "db_select env c h w =
     (case fault env OpSelect of
        Some e \<Rightarrow> (Inl e, w)
      | None \<Rightarrow>
          (let bound = sqlite_datetime_now (select_now env) 86400
           in (Inr (select_recent c h bound (rows w)),
               w\<lparr>trace := trace w @ [Select c h bound]\<rparr>)))"

text \<open>
  \<^verbatim>\<open>INSERT OR REPLACE\<close>: the rows in conflict with the new one on
  \<^verbatim>\<open>UNIQUE(chat_id, message_hash)\<close> are deleted, then the new row is inserted with a fresh
  \<^verbatim>\<open>id\<close>.
\<close>

definition insert_or_replace :: "row \<Rightarrow> world \<Rightarrow> world" where
  "insert_or_replace r w =
     (let r' = r\<lparr>row_id := Suc (seq w)\<rparr>
      in w\<lparr>rows := filter (\<lambda>x. \<not> (chat_id x = chat_id r \<and> message_hash x = message_hash r))
                      (rows w) @ [r'],
           seq := Suc (seq w),
           trace := trace w @ [Insert r']\<rparr>)"

definition db_insert_or_replace :: "env \<Rightarrow> row \<Rightarrow> world \<Rightarrow> (exn + unit) \<times> world" where
  "db_insert_or_replace env r w =
     (case fault env OpInsert of
        Some e \<Rightarrow> (Inl e, w)
      | None \<Rightarrow> (Inr (), insert_or_replace r w))"

definition db_commit :: "env \<Rightarrow> op \<Rightarrow> world \<Rightarrow> (exn + unit) \<times> world" where
  "db_commit env which w =
     (case fault env which of
        Some e \<Rightarrow> (Inl e, w)
      | None \<Rightarrow> (Inr (), w\<lparr>trace := trace w @ [Commit]\<rparr>))"

text \<open>The \<^verbatim>\<open>DELETE\<close>: the rows whose time stamp is earlier than seven days before now
  go, whatever their chat.\<close>

definition delete_old :: "string option \<Rightarrow> row list \<Rightarrow> row list" where
  "delete_old bound rs = filter (\<lambda>r. \<not> earlier_than bound (timestamp r)) rs"

definition db_delete :: "env \<Rightarrow> world \<Rightarrow> (exn + unit) \<times> world" where
  "db_delete env w =
     (case fault env OpDelete of
        Some e \<Rightarrow> (Inl e, w)
      | None \<Rightarrow>
          (let bound = sqlite_datetime_now (delete_now env) 604800
           in (Inr (), w\<lparr>rows := delete_old bound (rows w),
                         trace := trace w @ [Delete bound]\<rparr>)))"

definition reply_text :: "env \<Rightarrow> int \<Rightarrow> pystr \<Rightarrow> world \<Rightarrow> (exn + unit) \<times> world" where
  "reply_text env c msg w =
     (case fault env OpReply of
        Some e \<Rightarrow> (Inl e, w)
      | None \<Rightarrow> (Inr (), w\<lparr>trace := trace w @ [Reply c msg]\<rparr>))"

section \<open>The handler\<close>

text \<open>The part of a Telegram update that \<^verbatim>\<open>handle_message\<close> reads.\<close>

record user =
  uid :: int
  first_name :: pystr

record message =
  msg_chat_id :: int
  from_user :: "user option"
  msg_text :: "pystr option"

text \<open>\<^verbatim>\<open>str(user_id)\<close>.\<close>

function digits :: "nat \<Rightarrow> pystr" where
  "digits n = (if n < 10 then [48 + n] else digits (n div 10) @ [48 + n mod 10])"
  by pat_completeness auto
termination
  by (relation "measure id") auto

definition py_str_int :: "int \<Rightarrow> pystr" where
  "py_str_int i = (if i < 0 then 45 # digits (nat (- i)) else digits (nat i))"

text \<open>\<^verbatim>\<open>first_name if first_name else str(user_id)\<close>.\<close>

definition display_name :: "user \<Rightarrow> pystr" where
  "display_name usr = (if first_name usr \<noteq> [] then first_name usr else py_str_int (uid usr))"

text \<open>The notice; 10060 is the code point of the cross mark, 10 the line feed.\<close>

definition response_message :: "pystr \<Rightarrow> pystr \<Rightarrow> string \<Rightarrow> pystr \<Rightarrow> string \<Rightarrow> pystr" where
  "response_message original_text original_user_name original_time_str name current_time_str =
     [10060] @ ustr ''Nomor sudah pernah bergabung'' @ [10060, 10] @
     ustr ''Nomor yang terdeteksi: '' @ original_text @ [10] @
     original_user_name @ ustr '' : '' @ ustr original_time_str @ ustr '' (pertama kali)'' @ [10] @
     name @ ustr '' : '' @ ustr current_time_str @ ustr '' (kali ini)''"

text \<open>The branch \<^verbatim>\<open>if existing_message\<close>.\<close>

definition duplicate_branch :: "env \<Rightarrow> message \<Rightarrow> user \<Rightarrow> row \<Rightarrow> world \<Rightarrow> (exn + unit) \<times> world" where
  "duplicate_branch env m usr r w =
     (case strptime_db (timestamp r) of
        Inl e \<Rightarrow> (Inl e, w)
      | Inr original_time_dt \<Rightarrow>
          (case datetime_now_jakarta (python_now env) of
             Inl e \<Rightarrow> (Inl e, w)
           | Inr now \<Rightarrow>
               and_then
                 (reply_text env (msg_chat_id m)
                    (response_message (message_text r) (user_name r)
                       (strftime_display original_time_dt) (display_name usr)
                       (strftime_display now)) w)
                 (\<lambda>_ w'. (Inr (), w'\<lparr>trace := trace w' @ [LogInfo (msg_chat_id m)]\<rparr>))))"

text \<open>The branch \<^verbatim>\<open>else\<close>.\<close>

definition novel_branch ::
  "env \<Rightarrow> message \<Rightarrow> user \<Rightarrow> pystr \<Rightarrow> string \<Rightarrow> world \<Rightarrow> (exn + unit) \<times> world" where
  "novel_branch env m usr message_text' h w =
     (case datetime_now_jakarta (python_now env) of
        Inl e \<Rightarrow> (Inl e, w)
      | Inr now \<Rightarrow>
          and_then
            (db_insert_or_replace env
               \<lparr>row_id = 0, chat_id = msg_chat_id m, message_hash = h,
                message_text = message_text', user_id = uid usr,
                timestamp = strftime_db now, user_name = display_name usr\<rparr> w)
            (\<lambda>_ w'. db_commit env OpCommitInsert w'))"

text \<open>From the computation of the hash to the end of the \<^verbatim>\<open>try\<close> block.\<close>

definition process_text ::
  "(pystr \<Rightarrow> pystr) \<Rightarrow> env \<Rightarrow> message \<Rightarrow> user \<Rightarrow> pystr \<Rightarrow> world \<Rightarrow> (exn + unit) \<times> world" where
  "process_text ulower env m usr txt w =
     (case generate_message_hash ulower txt of
        Inl e \<Rightarrow> (Inl e, w)
      | Inr h \<Rightarrow>
          and_then (db_select env (msg_chat_id m) h w) (\<lambda>existing_message w1.
          and_then
            (case existing_message of
               Some r \<Rightarrow> duplicate_branch env m usr r w1
             | None \<Rightarrow> novel_branch env m usr txt h w1) (\<lambda>_ w2.
          and_then (db_delete env w2) (\<lambda>_ w3.
          db_commit env OpCommitDelete w3))))"

text \<open>The body of the \<^verbatim>\<open>try\<close> block. The argument is \<^verbatim>\<open>update.message\<close>.\<close>

definition handle_body ::
  "(pystr \<Rightarrow> pystr) \<Rightarrow> env \<Rightarrow> message option \<Rightarrow> world \<Rightarrow> (exn + unit) \<times> world" where
  "handle_body ulower env upd w =
     (case upd of
        None \<Rightarrow> (Inr (), w)
      | Some m \<Rightarrow>
          (case msg_text m of
             None \<Rightarrow> (Inr (), w)
           | Some txt \<Rightarrow>
               if txt = [] then (Inr (), w)
               else
                 (case from_user m of
                    None \<Rightarrow> (Inl AttributeError, w)
                  | Some usr \<Rightarrow>
                      if length (strip txt) < 5 then (Inr (), w)
                      else process_text ulower env m usr txt w)))"

text \<open>
  \<^verbatim>\<open>handle_message\<close>: the body inside \<^verbatim>\<open>try\<close> ... \<^verbatim>\<open>except Exception\<close>. The result is
  the exception that leaves the handler, if any, and the state after the call.
\<close>

definition handle_message ::
  "(pystr \<Rightarrow> pystr) \<Rightarrow> env \<Rightarrow> message option \<Rightarrow> world \<Rightarrow> exn option \<times> world" where
  "handle_message ulower env upd w =
     (case handle_body ulower env upd w of
        (Inr _, w') \<Rightarrow> (None, w')
      | (Inl e, w') \<Rightarrow>
          if is_Exception e then (None, w'\<lparr>trace := trace w' @ [LogError e]\<rparr>)
          else (Some e, w'))"

text \<open>The handler on a sequence of updates, each with what it meets outside; an
  exception that leaves the handler ends the run.\<close>

fun run_updates ::
  "(pystr \<Rightarrow> pystr) \<Rightarrow> (env \<times> message option) list \<Rightarrow> world \<Rightarrow> exn option \<times> world" where
  "run_updates ulower [] w = (None, w)"
| "run_updates ulower ((env, upd) # rest) w =
     (case handle_message ulower env upd w of
        (None, w') \<Rightarrow> run_updates ulower rest w'
      | (Some e, w') \<Rightarrow> (Some e, w'))"

section \<open>Scenarios\<close>

text \<open>Inputs for the concrete runs below: a call in which nothing fails and the three
  clock readings coincide, the empty table, and a text message of a user in a chat.\<close>

definition no_faults :: "op \<Rightarrow> exn option" where
  "no_faults = (\<lambda>_. None)"

definition env_at :: "nat \<Rightarrow> env" where
  "env_at t = \<lparr>select_now = t, python_now = t, delete_now = t, fault = no_faults\<rparr>"

definition empty_world :: world where
  "empty_world = \<lparr>rows = [], seq = 0, trace = []\<rparr>"

definition text_message :: "int \<Rightarrow> int \<Rightarrow> pystr \<Rightarrow> pystr \<Rightarrow> message option" where
  "text_message c u name txt =
     Some \<lparr>msg_chat_id = c, from_user = Some \<lparr>uid = u, first_name = name\<rparr>, msg_text = Some txt\<rparr>"

text \<open>The digest of \<^verbatim>\<open>"hello world"\<close>.\<close>

definition hello_world_hash :: string where
  "hello_world_hash =
     hexdigest (md5 [104, 101, 108, 108, 111, 32, 119, 111, 114, 108, 100])"

text \<open>The row that a post of \<^verbatim>\<open>"hello world"\<close> by user 7, named \<^verbatim>\<open>A\<close>, in chat 1 leaves
  in the empty table when the clock reads 1771730483, which is 2026-02-22 03:21:23 UTC and
  10:21:23 in Jakarta; the table after that post; the post itself.\<close>

definition stored_row :: row where
  "stored_row =
     \<lparr>row_id = 1, chat_id = 1, message_hash = hello_world_hash,
      message_text = ustr ''hello world'', user_id = 7,
      timestamp = ''2026-02-22 10:21:23'', user_name = ustr ''A''\<rparr>"

definition stored_world :: world where
  "stored_world = \<lparr>rows = [stored_row], seq = 1, trace = []\<rparr>"

definition hello_by_A :: message where
  "hello_by_A =
     \<lparr>msg_chat_id = 1, from_user = Some \<lparr>uid = 7, first_name = ustr ''A''\<rparr>,
      msg_text = Some (ustr ''hello world'')\<rparr>"

text \<open>A call at clock reading \<open>t\<close> in which exactly one call fails, with exception \<open>e\<close>;
  and the calls in which whatever is raised from outside derives from \<^verbatim>\<open>Exception\<close>.\<close>

definition env_failing :: "nat \<Rightarrow> op \<Rightarrow> exn \<Rightarrow> env" where
  "env_failing t which e =
     \<lparr>select_now = t, python_now = t, delete_now = t,
      fault = (\<lambda>x. if x = which then Some e else None)\<rparr>"

definition only_Exceptions :: "env \<Rightarrow> bool" where
  "only_Exceptions env \<longleftrightarrow> (\<forall>which e. fault env which = Some e \<longrightarrow> is_Exception e)"

text \<open>The notice for a repost of \<^verbatim>\<open>"hello world"\<close> by \<^verbatim>\<open>A\<close> one hour after \<open>stored_row\<close>
  was written.\<close>

definition notice_hour :: pystr where
  "notice_hour =
     response_message (ustr ''hello world'') (ustr ''A'') ''2026/02/22 10:21:23'' (ustr ''A'')
       ''2026/02/22 11:21:23''"

text \<open>The key of the constraint \<^verbatim>\<open>UNIQUE(chat_id, message_hash)\<close>, and the tables that
  satisfy the constraint.\<close>

definition row_key :: "row \<Rightarrow> int \<times> string" where
  "row_key r = (chat_id r, message_hash r)"

definition unique_keys :: "world \<Rightarrow> bool" where
  "unique_keys w = distinct (map row_key (rows w))"

text \<open>The same text posted in chat 2 by user 8, named \<^verbatim>\<open>B\<close>.\<close>

definition hello_by_B :: message where
  "hello_by_B =
     \<lparr>msg_chat_id = 2, from_user = Some \<lparr>uid = 8, first_name = ustr ''B''\<rparr>,
      msg_text = Some (ustr ''hello world'')\<rparr>"

text \<open>The code points that UTF-8 can encode: all but the surrogates.\<close>

definition encodable :: "nat \<Rightarrow> bool" where
  "encodable c \<longleftrightarrow> c < 1114112 \<and> \<not> (55296 \<le> c \<and> c \<le> 57343)"

text \<open>The texts of ASCII code points only.\<close>

definition ascii :: "pystr \<Rightarrow> bool" where
  "ascii s = list_all (\<lambda>c. c < 128) s"

section \<open>Properties of the fingerprint\<close>

lemma length_le_bytes: "length (le_bytes k n) = k"
  by (simp add: le_bytes_def)

lemma length_md5: "length (md5 bs) = 16"
  by (simp add: md5_def Let_def length_le_bytes split: prod.split)

lemma length_hexdigest: "length (hexdigest bs) = 2 * length bs"
  by (induction bs) (simp_all add: hexdigest_def)

lemma hexchar_in: "hexchar n \<in> set ''0123456789abcdef''"
proof -
  have "n mod 16 < length ''0123456789abcdef''" by simp
  then show ?thesis unfolding hexchar_def by (rule nth_mem)
qed

lemma set_hexdigest: "set (hexdigest bs) \<subseteq> set ''0123456789abcdef''"
  unfolding hexdigest_def using hexchar_in by (induction bs) auto

lemma utf8_char_error: "utf8_char c = Inl e \<Longrightarrow> e = UnicodeEncodeError"
  by (auto simp: utf8_char_def split: if_splits)

lemma encode_error: "encode s = Inl e \<Longrightarrow> e = UnicodeEncodeError"
  by (induction s) (auto split: sum.splits dest: utf8_char_error)

lemma generate_message_hash_cases:
  "(case generate_message_hash L x of
      Inr h \<Rightarrow> length h = 32 \<and> set h \<subseteq> set ''0123456789abcdef''
    | Inl e \<Rightarrow> e = UnicodeEncodeError)"
  using set_hexdigest
  by (auto simp: generate_message_hash_def length_hexdigest length_md5
           split: sum.splits dest: encode_error)

lemma normalized_Hi_There: "normalized_text L (ustr ''Hi  There'') = ustr ''hi there''"
  by (simp add: normalized_text_def lower_def ustr_def split_def isspace_def ascii_lower_def)

lemma normalized_hi_there: "normalized_text L (ustr ''hi there'') = ustr ''hi there''"
  by (simp add: normalized_text_def lower_def ustr_def split_def isspace_def ascii_lower_def)

lemma utf8_char_encodable: "encodable c \<Longrightarrow> \<exists>bs. utf8_char c = Inr bs"
  by (simp add: encodable_def utf8_char_def)

lemma encode_encodable: "list_all encodable s \<Longrightarrow> \<exists>bs. encode s = Inr bs"
proof (induction s)
  case Nil
  then show ?case by simp
next
  case (Cons c cs)
  then obtain bs rest where "utf8_char c = Inr bs" "encode cs = Inr rest"
    using utf8_char_encodable by fastforce
  then show ?case by simp
qed

lemma in_split_acc:
  "t \<in> set (split_acc cur s) \<Longrightarrow> x \<in> set t \<Longrightarrow> x \<in> set cur \<union> set s"
proof (induction s arbitrary: cur)
  case Nil
  then show ?case by (simp split: if_splits)
next
  case (Cons c cs)
  show ?case
  proof (cases "isspace c")
    case True
    then have "t = cur \<or> t \<in> set (split_acc [] cs)"
      using Cons.prems(1) by (auto split: if_splits)
    then show ?thesis using Cons.IH [of "[]"] Cons.prems(2) by auto
  next
    case False
    then have "t \<in> set (split_acc (cur @ [c]) cs)"
      using Cons.prems(1) by simp
    then show ?thesis using Cons.IH [of "cur @ [c]"] Cons.prems(2) by auto
  qed
qed

lemma set_split_acc: "set (concat (split_acc cur s)) \<subseteq> set cur \<union> set s"
  using in_split_acc by fastforce

lemma set_join: "set (join sep xs) \<subseteq> set sep \<union> set (concat xs)"
  by (induction sep xs rule: join.induct) auto

lemma encodable_normalized_text:
  assumes "list_all encodable (lower L x)"
  shows "list_all encodable (normalized_text L x)"
proof -
  have "set (normalized_text L x) \<subseteq> {32} \<union> set (lower L x)"
    unfolding normalized_text_def split_def
    using set_join [of "[32]" "split_acc [] (lower L x)"] set_split_acc [of "[]" "lower L x"]
    by auto
  moreover have "encodable 32" by (simp add: encodable_def)
  ultimately show ?thesis using assms by (auto simp: list_all_iff)
qed

lemma generate_message_hash_encodable:
  assumes "list_all encodable (lower L x)"
  shows "\<exists>h. generate_message_hash L x = Inr h \<and> length h = 32 \<and>
             set h \<subseteq> set ''0123456789abcdef''"
proof -
  obtain bs where "encode (normalized_text L x) = Inr bs"
    using encode_encodable [OF encodable_normalized_text [OF assms]] by blast
  then have "generate_message_hash L x = Inr (hexdigest (md5 bs))"
    by (simp add: generate_message_hash_def)
  then show ?thesis
    using set_hexdigest [of "md5 bs"] by (simp add: length_hexdigest length_md5)
qed

lemma split_acc_space:
  "isspace w \<Longrightarrow> split_acc cur (a @ w # b) = split_acc cur a @ split_acc [] b"
  by (induction a arbitrary: cur) simp_all

lemma split_acc_leading: "list_all isspace ws \<Longrightarrow> split_acc [] (ws @ b) = split_acc [] b"
  by (induction ws) simp_all

lemma split_run:
  assumes "ws \<noteq> []" "list_all isspace ws"
  shows "split (a @ ws @ b) = split a @ split b"
proof -
  obtain w ws' where ws: "ws = w # ws'" using assms(1) by (cases ws) auto
  then have w: "isspace w" and ws': "list_all isspace ws'" using assms(2) by auto
  have "split_acc [] (a @ w # (ws' @ b)) = split_acc [] a @ split_acc [] (ws' @ b)"
    using w by (rule split_acc_space)
  then show ?thesis using ws split_acc_leading [OF ws'] by (simp add: split_def)
qed

lemma split_leading: "list_all isspace ws \<Longrightarrow> split (ws @ a) = split a"
  by (simp add: split_def split_acc_leading)

lemma split_trailing:
  assumes "list_all isspace ws"
  shows "split (a @ ws) = split a"
proof (cases ws)
  case Nil
  then show ?thesis by simp
next
  case (Cons w ws')
  then have "split (a @ ws @ []) = split a @ split []"
    using assms split_run [of ws a "[]"] by blast
  then show ?thesis by (simp add: split_def)
qed

lemma isspace_ascii_lower: "isspace (ascii_lower c) = isspace c"
  by (auto simp: isspace_def ascii_lower_def)

lemma lower_ascii: "ascii s \<Longrightarrow> lower L s = map ascii_lower s"
  by (simp add: lower_def ascii_def)

lemma normalized_case:
  "ascii x \<Longrightarrow> ascii y \<Longrightarrow> map ascii_lower x = map ascii_lower y \<Longrightarrow>
   normalized_text L x = normalized_text L y"
  by (simp add: normalized_text_def lower_ascii)

lemma normalized_run:
  assumes "ascii (a @ ws @ b)" "ws \<noteq> []" "list_all isspace ws"
  shows "normalized_text L (a @ ws @ b) = normalized_text L (a @ [32] @ b)"
proof -
  have 1: "ascii (a @ [32] @ b)" using assms(1) by (simp add: ascii_def)
  have 2: "map ascii_lower ws \<noteq> []" "list_all isspace (map ascii_lower ws)"
    using assms(2,3) by (simp_all add: list_all_iff isspace_ascii_lower)
  have 3: "list_all isspace (map ascii_lower [32])" "map ascii_lower [32] \<noteq> []"
    by (simp_all add: isspace_def ascii_lower_def)
  have "split (map ascii_lower a @ map ascii_lower ws @ map ascii_lower b) =
        split (map ascii_lower a @ map ascii_lower [32] @ map ascii_lower b)"
    using split_run [OF 2] split_run [OF 3(2) 3(1)] by simp
  then show ?thesis
    using lower_ascii [OF assms(1)] lower_ascii [OF 1] by (simp add: normalized_text_def)
qed

lemma normalized_trim:
  assumes "ascii (ws @ a @ ws')" "list_all isspace ws" "list_all isspace ws'"
  shows "normalized_text L (ws @ a @ ws') = normalized_text L a"
proof -
  have 1: "ascii a" using assms(1) by (simp add: ascii_def)
  have 2: "list_all isspace (map ascii_lower ws)" "list_all isspace (map ascii_lower ws')"
    using assms(2,3) by (simp_all add: list_all_iff isspace_ascii_lower)
  have "split (map ascii_lower ws @ (map ascii_lower a @ map ascii_lower ws')) =
        split (map ascii_lower a)"
    using split_leading [OF 2(1)] split_trailing [OF 2(2)] by simp
  then show ?thesis
    using lower_ascii [OF assms(1)] lower_ascii [OF 1] by (simp add: normalized_text_def)
qed

text \<open>
  C6, as the claim states it, fails: not every string has a fingerprint. A text that holds
  a lone surrogate code point, here \<^verbatim>\<open>"\ud800abcd"\<close>, makes \<^verbatim>\<open>generate_message_hash\<close> raise
  \<^verbatim>\<open>UnicodeEncodeError\<close> instead of returning a digest.
\<close>

theorem fingerprint_surrogate_counterexample:
  "generate_message_hash id [55296, 97, 98, 99, 100] = Inl UnicodeEncodeError"
  by (simp add: generate_message_hash_def normalized_text_def lower_def split_def isspace_def
        utf8_char_def)

text \<open>
  C6, amended. For every text whose lower-cased form holds only code points that UTF-8
  can encode, \<^verbatim>\<open>generate_message_hash\<close> returns a digest of exactly 32 lower-case
  hexadecimal digits. The digest is a function of the normalised text alone: two texts with
  the same normalised form have the same fingerprint, whatever the case-mapping table. On
  ASCII texts the normalisation does what its description says: two texts that differ in
  the case of letters only have the same fingerprint; a run of whitespace inside a text
  counts as one space; whitespace at either end is ignored. \<^verbatim>\<open>"Hi  There"\<close> and
  \<^verbatim>\<open>"hi there"\<close> have the same fingerprint, and it is a digest.
\<close>

theorem fingerprint_of_encodable_text:
  "(list_all encodable (lower L x) \<longrightarrow>
      (\<exists>h. generate_message_hash L x = Inr h \<and> length h = 32 \<and>
           set h \<subseteq> set ''0123456789abcdef''))
   \<and> (normalized_text L a = normalized_text L b \<longrightarrow>
        generate_message_hash L a = generate_message_hash L b)
   \<and> (ascii u \<and> ascii v \<and> map ascii_lower u = map ascii_lower v \<longrightarrow>
        generate_message_hash L u = generate_message_hash L v)
   \<and> (ascii (p @ ws @ q) \<and> ws \<noteq> [] \<and> list_all isspace ws \<longrightarrow>
        generate_message_hash L (p @ ws @ q) = generate_message_hash L (p @ [32] @ q))
   \<and> (ascii (ws1 @ t @ ws2) \<and> list_all isspace ws1 \<and> list_all isspace ws2 \<longrightarrow>
        generate_message_hash L (ws1 @ t @ ws2) = generate_message_hash L t)
   \<and> generate_message_hash L (ustr ''Hi  There'') = generate_message_hash L (ustr ''hi there'')
   \<and> (\<exists>h. generate_message_hash L (ustr ''hi there'') = Inr h \<and> length h = 32)"
proof (intro conjI impI)
  assume "list_all encodable (lower L x)"
  then show "\<exists>h. generate_message_hash L x = Inr h \<and> length h = 32 \<and>
                 set h \<subseteq> set ''0123456789abcdef''"
    by (rule generate_message_hash_encodable)
next
  assume "normalized_text L a = normalized_text L b"
  then show "generate_message_hash L a = generate_message_hash L b"
    by (simp add: generate_message_hash_def)
next
  assume "ascii u \<and> ascii v \<and> map ascii_lower u = map ascii_lower v"
  then have "normalized_text L u = normalized_text L v"
    using normalized_case by blast
  then show "generate_message_hash L u = generate_message_hash L v"
    by (simp add: generate_message_hash_def)
next
  assume "ascii (p @ ws @ q) \<and> ws \<noteq> [] \<and> list_all isspace ws"
  then have "normalized_text L (p @ ws @ q) = normalized_text L (p @ [32] @ q)"
    using normalized_run by blast
  then show "generate_message_hash L (p @ ws @ q) = generate_message_hash L (p @ [32] @ q)"
    by (simp add: generate_message_hash_def)
next
  assume "ascii (ws1 @ t @ ws2) \<and> list_all isspace ws1 \<and> list_all isspace ws2"
  then have "normalized_text L (ws1 @ t @ ws2) = normalized_text L t"
    using normalized_trim by blast
  then show "generate_message_hash L (ws1 @ t @ ws2) = generate_message_hash L t"
    by (simp add: generate_message_hash_def)
next
  show "generate_message_hash L (ustr ''Hi  There'') = generate_message_hash L (ustr ''hi there'')"
    by (simp add: generate_message_hash_def normalized_Hi_There normalized_hi_there)
next
  have "list_all encodable (lower L (ustr ''hi there''))"
    by (simp add: lower_def ustr_def ascii_lower_def encodable_def)
  then show "\<exists>h. generate_message_hash L (ustr ''hi there'') = Inr h \<and> length h = 32"
    using generate_message_hash_encodable by blast
qed

theorem fingerprint_of_encodable_text_witness:
  "list_all encodable (lower id (ustr ''HELLO   world ''))
   \<and> (\<exists>h. generate_message_hash id (ustr ''HELLO   world '') = Inr h \<and> length h = 32 \<and>
          set h \<subseteq> set ''0123456789abcdef'')
   \<and> normalized_text id (ustr ''HELLO   world '') = normalized_text id (ustr ''hello world'')
   \<and> generate_message_hash id (ustr ''HELLO   world '') =
       generate_message_hash id (ustr ''hello world'')
   \<and> (ascii (ustr ''HeLLo'') \<and> ascii (ustr ''hEllO'') \<and>
        map ascii_lower (ustr ''HeLLo'') = map ascii_lower (ustr ''hEllO''))
   \<and> generate_message_hash id (ustr ''HeLLo'') = generate_message_hash id (ustr ''hEllO'')
   \<and> (ascii (ustr ''a'' @ [9, 32, 10] @ ustr ''b'') \<and> [9, 32, 10] \<noteq> ([] :: nat list) \<and>
        list_all isspace [9, 32, 10])
   \<and> generate_message_hash id (ustr ''a'' @ [9, 32, 10] @ ustr ''b'') =
       generate_message_hash id (ustr ''a'' @ [32] @ ustr ''b'')
   \<and> (ascii ([32, 32] @ ustr ''ab'' @ [10]) \<and> list_all isspace [32, 32] \<and> list_all isspace [10])
   \<and> generate_message_hash id ([32, 32] @ ustr ''ab'' @ [10]) =
       generate_message_hash id (ustr ''ab'')"
proof -
  note T = fingerprint_of_encodable_text
    [where L = id and x = "ustr ''HELLO   world ''" and a = "ustr ''HELLO   world ''"
       and b = "ustr ''hello world''" and u = "ustr ''HeLLo''" and v = "ustr ''hEllO''"
       and p = "ustr ''a''" and ws = "[9, 32, 10]" and q = "ustr ''b''"
       and ?ws1.0 = "[32, 32]" and t = "ustr ''ab''" and ?ws2.0 = "[10]"]
  have e: "list_all encodable (lower id (ustr ''HELLO   world ''))"
    by (simp add: lower_def ustr_def ascii_lower_def encodable_def)
  have h: "normalized_text id (ustr ''HELLO   world '') = normalized_text id (ustr ''hello world'')"
    by (simp add: normalized_text_def lower_def ustr_def split_def isspace_def ascii_lower_def)
  have c: "ascii (ustr ''HeLLo'') \<and> ascii (ustr ''hEllO'') \<and>
           map ascii_lower (ustr ''HeLLo'') = map ascii_lower (ustr ''hEllO'')"
    by (simp add: ascii_def ustr_def ascii_lower_def)
  have r: "ascii (ustr ''a'' @ [9, 32, 10] @ ustr ''b'') \<and> [9, 32, 10] \<noteq> ([] :: nat list) \<and>
           list_all isspace [9, 32, 10]"
    by (simp add: ascii_def ustr_def isspace_def)
  have m: "ascii ([32, 32] @ ustr ''ab'' @ [10]) \<and> list_all isspace [32, 32] \<and>
           list_all isspace [10]"
    by (simp add: ascii_def ustr_def isspace_def)
  from T e have 1: "\<exists>h. generate_message_hash id (ustr ''HELLO   world '') = Inr h \<and>
      length h = 32 \<and> set h \<subseteq> set ''0123456789abcdef''" by blast
  from T h have 2: "generate_message_hash id (ustr ''HELLO   world '') =
       generate_message_hash id (ustr ''hello world'')" by blast
  from T c have 3: "generate_message_hash id (ustr ''HeLLo'') =
       generate_message_hash id (ustr ''hEllO'')" by blast
  from T r have 4: "generate_message_hash id (ustr ''a'' @ [9, 32, 10] @ ustr ''b'') =
       generate_message_hash id (ustr ''a'' @ [32] @ ustr ''b'')" by blast
  from T m have 5: "generate_message_hash id ([32, 32] @ ustr ''ab'' @ [10]) =
       generate_message_hash id (ustr ''ab'')" by blast
  from e h c r m 1 2 3 4 5 show ?thesis by blast
qed

section \<open>Properties of the handler\<close>

lemma strip_nonempty: "5 \<le> length (strip s) \<Longrightarrow> s \<noteq> []"
  by (auto simp: strip_def)

lemma handle_body_process:
  assumes "from_user m = Some usr" "msg_text m = Some s" "5 \<le> length (strip s)"
  shows "handle_body L env (Some m) w = process_text L env m usr s w"
  using assms strip_nonempty [of s] by (simp add: handle_body_def)

text \<open>What a call does when nothing raises and the lookup finds a row.\<close>

lemma duplicate_cycle:
  assumes m: "from_user m = Some usr" "msg_text m = Some s" "5 \<le> length (strip s)"
    and h: "generate_message_hash L s = Inr h"
    and f: "\<forall>which. fault env which = None"
    and r: "select_recent (msg_chat_id m) h (sqlite_datetime_now (select_now env) 86400) (rows w)
            = Some r"
    and p: "strptime_db (timestamp r) = Inr odt"
    and n: "datetime_now_jakarta (python_now env) = Inr now"
  shows "handle_message L env (Some m) w =
     (None,
      w\<lparr>rows := delete_old (sqlite_datetime_now (delete_now env) 604800) (rows w),
        trace := trace w @
          [Select (msg_chat_id m) h (sqlite_datetime_now (select_now env) 86400),
           Reply (msg_chat_id m)
             (response_message (message_text r) (user_name r) (strftime_display odt)
                (display_name usr) (strftime_display now)),
           LogInfo (msg_chat_id m),
           Delete (sqlite_datetime_now (delete_now env) 604800),
           Commit]\<rparr>)"
  using h f r p n
  by (simp add: handle_message_def handle_body_process [OF m] process_text_def and_then_def
        db_select_def duplicate_branch_def reply_text_def db_delete_def db_commit_def Let_def)

text \<open>What a call does when nothing raises and the lookup finds no row.\<close>

lemma novel_cycle:
  assumes m: "from_user m = Some usr" "msg_text m = Some s" "5 \<le> length (strip s)"
    and h: "generate_message_hash L s = Inr h"
    and f: "\<forall>which. fault env which = None"
    and r: "select_recent (msg_chat_id m) h (sqlite_datetime_now (select_now env) 86400) (rows w)
            = None"
    and n: "datetime_now_jakarta (python_now env) = Inr now"
  shows "handle_message L env (Some m) w =
     (None,
      w\<lparr>rows := delete_old (sqlite_datetime_now (delete_now env) 604800)
                 (filter (\<lambda>x. \<not> (chat_id x = msg_chat_id m \<and> message_hash x = h)) (rows w) @
                  [\<lparr>row_id = Suc (seq w), chat_id = msg_chat_id m, message_hash = h,
                    message_text = s, user_id = uid usr, timestamp = strftime_db now,
                    user_name = display_name usr\<rparr>]),
        seq := Suc (seq w),
        trace := trace w @
          [Select (msg_chat_id m) h (sqlite_datetime_now (select_now env) 86400),
           Insert \<lparr>row_id = Suc (seq w), chat_id = msg_chat_id m, message_hash = h,
                   message_text = s, user_id = uid usr, timestamp = strftime_db now,
                   user_name = display_name usr\<rparr>,
           Commit,
           Delete (sqlite_datetime_now (delete_now env) 604800),
           Commit]\<rparr>)"
  using h f r n
  by (simp add: handle_message_def handle_body_process [OF m] process_text_def and_then_def
        db_select_def novel_branch_def db_insert_or_replace_def insert_or_replace_def
        db_delete_def db_commit_def Let_def)

subsection \<open>Facts about the scenario\<close>

lemma hash_hello_world:
  "generate_message_hash L (ustr ''hello world'') = Inr hello_world_hash"
  by (simp add: generate_message_hash_def normalized_text_def lower_def split_def isspace_def
        ascii_lower_def ustr_def utf8_char_def hello_world_hash_def)

lemma strip_hello_world: "strip (ustr ''hello world'') = ustr ''hello world''"
  by (simp add: strip_def ustr_def isspace_def)

lemma length_hello_world: "5 \<le> length (strip (ustr ''hello world''))"
  by (simp add: strip_hello_world) (simp add: ustr_def)

lemmas time_eval = sqlite_datetime_now_def datetime_now_jakarta_def jakarta_offset_def
  strftime_db_def strftime_display_def strftime_sep_def pad2_def pad4_def digit_char_def civil_def
  epoch_shift_def days_in_year_def is_leap_def days_in_month_def Let_def

lemmas strptime_eval = strptime_db_def strptime_match_def re_m_def re_d_def re_H_def re_M_def
  re_S_def is_digit_def digit_val_def valid_datetime_def days_in_month_def is_leap_def isspace_def

lemma lookup_bound_first: "sqlite_datetime_now 1771730483 86400 = Some ''2026-02-21 03:21:23''"
  by (simp add: time_eval)

lemma sweep_bound_first: "sqlite_datetime_now 1771730483 604800 = Some ''2026-02-15 03:21:23''"
  by (simp add: time_eval)

lemma jakarta_first:
  "datetime_now_jakarta 1771730483 =
     Inr \<lparr>year = 2026, month = 2, day = 22, hour = 10, minute = 21, second = 23\<rparr>"
  by (simp add: time_eval)

lemma lookup_bound_hour: "sqlite_datetime_now 1771734083 86400 = Some ''2026-02-21 04:21:23''"
  by (simp add: time_eval)

lemma sweep_bound_hour: "sqlite_datetime_now 1771734083 604800 = Some ''2026-02-15 04:21:23''"
  by (simp add: time_eval)

lemma jakarta_hour:
  "datetime_now_jakarta 1771734083 =
     Inr \<lparr>year = 2026, month = 2, day = 22, hour = 11, minute = 21, second = 23\<rparr>"
  by (simp add: time_eval)

lemma strptime_stored:
  "strptime_db (timestamp stored_row) =
     Inr \<lparr>year = 2026, month = 2, day = 22, hour = 10, minute = 21, second = 23\<rparr>"
  by (simp add: stored_row_def strptime_eval)

lemma select_stored_hour:
  "select_recent 1 hello_world_hash (Some ''2026-02-21 04:21:23'') (rows stored_world)
   = Some stored_row"
  by (simp add: select_recent_def later_than_def stored_world_def stored_row_def)

text \<open>The first post: the program itself writes \<open>stored_row\<close>.\<close>

lemma first_post:
  "handle_message L (env_at 1771730483) (Some hello_by_A) empty_world =
   (None, \<lparr>rows = [stored_row], seq = 1,
            trace = [Select 1 hello_world_hash (Some ''2026-02-21 03:21:23''),
                     Insert stored_row, Commit,
                     Delete (Some ''2026-02-15 03:21:23''), Commit]\<rparr>)"
proof -
  have m: "from_user hello_by_A = Some \<lparr>uid = 7, first_name = ustr ''A''\<rparr>"
    "msg_text hello_by_A = Some (ustr ''hello world'')"
    by (simp_all add: hello_by_A_def)
  have f: "\<forall>which. fault (env_at 1771730483) which = None"
    by (simp add: env_at_def no_faults_def)
  have r: "select_recent (msg_chat_id hello_by_A) hello_world_hash
             (sqlite_datetime_now (select_now (env_at 1771730483)) 86400) (rows empty_world) = None"
    by (simp add: select_recent_def empty_world_def)
  have n: "datetime_now_jakarta (python_now (env_at 1771730483)) =
     Inr \<lparr>year = 2026, month = 2, day = 22, hour = 10, minute = 21, second = 23\<rparr>"
    by (simp add: env_at_def jakarta_first)
  have d: "delete_now (env_at 1771730483) = 1771730483" "select_now (env_at 1771730483) = 1771730483"
    by (simp_all add: env_at_def)
  have ts: "strftime_db \<lparr>year = 2026, month = 2, day = 22, hour = 10, minute = 21, second = 23\<rparr>
            = ''2026-02-22 10:21:23''"
    by (simp add: strftime_db_def strftime_sep_def pad2_def pad4_def digit_char_def)
  show ?thesis
    unfolding novel_cycle [OF m length_hello_world hash_hello_world f r n] d
      lookup_bound_first sweep_bound_first ts
    by (simp add: empty_world_def stored_row_def hello_by_A_def display_name_def ustr_def
          delete_old_def earlier_than_def)
qed

subsection \<open>Short texts\<close>

text \<open>
  C5. A message whose text, stripped of whitespace at both ends, has fewer than five
  characters is dropped: whatever the clocks read and whichever calls would fail, the
  handler returns normally with the table and the trace as they were, so no statement has
  run and no reply was sent. (The handler reads the sender before it measures the text: a
  non-empty short text without sender adds one line to the log, the \<^verbatim>\<open>AttributeError\<close>,
  and nothing else.)
\<close>

theorem short_text_discarded:
  assumes "msg_text m = Some s" and "length (strip s) < 5"
  shows "handle_message L env (Some m) w =
           (None, if s \<noteq> [] \<and> from_user m = None
                  then w\<lparr>trace := trace w @ [LogError AttributeError]\<rparr> else w)"
  using assms by (simp add: handle_message_def handle_body_def split: option.splits)

theorem short_text_discarded_witness:
  "msg_text \<lparr>msg_chat_id = 1, from_user = Some \<lparr>uid = 7, first_name = ustr ''A''\<rparr>,
             msg_text = Some (ustr ''  hi '')\<rparr> = Some (ustr ''  hi '')
   \<and> length (strip (ustr ''  hi '')) < 5
   \<and> handle_message id
        \<lparr>select_now = 1771734083, python_now = 1771734083, delete_now = 1771734083,
         fault = (\<lambda>_. Some OperationalError)\<rparr>
        (Some \<lparr>msg_chat_id = 1, from_user = Some \<lparr>uid = 7, first_name = ustr ''A''\<rparr>,
               msg_text = Some (ustr ''  hi '')\<rparr>)
        stored_world = (None, stored_world)"
proof -
  have l: "length (strip (ustr ''  hi '')) < 5"
    by (simp add: strip_def ustr_def isspace_def)
  show ?thesis
    using l short_text_discarded
      [of "\<lparr>msg_chat_id = 1, from_user = Some \<lparr>uid = 7, first_name = ustr ''A''\<rparr>,
             msg_text = Some (ustr ''  hi '')\<rparr>" "ustr ''  hi ''" id
          "\<lparr>select_now = 1771734083, python_now = 1771734083, delete_now = 1771734083,
            fault = (\<lambda>_. Some OperationalError)\<rparr>" stored_world]
    by simp
qed

subsection \<open>Duplicates\<close>



subsection \<open>Exceptions\<close>

lemma generate_message_hash_error:
  "generate_message_hash L s = Inl e \<Longrightarrow> e = UnicodeEncodeError"
  using generate_message_hash_cases [of L s] by simp

lemma strptime_db_error: "strptime_db s = Inl e \<Longrightarrow> e = ValueError"
  by (auto simp: strptime_db_def split: option.splits if_splits)

lemma datetime_now_jakarta_error:
  "datetime_now_jakarta t = Inl e \<Longrightarrow> e = ValueError \<or> e = OverflowError"
  by (auto simp: datetime_now_jakarta_def split: if_splits)

lemmas handler_defs = process_text_def and_then_def db_select_def duplicate_branch_def
  novel_branch_def reply_text_def db_insert_or_replace_def db_commit_def db_delete_def Let_def

lemma process_text_raises:
  assumes "process_text L env m usr s w = (Inl e, w1)"
  shows "e = UnicodeEncodeError \<or> e = ValueError \<or> e = OverflowError \<or>
         (\<exists>which. fault env which = Some e)"
  using assms
  by (auto simp: handler_defs
      split: sum.splits option.splits prod.splits
      dest: generate_message_hash_error strptime_db_error datetime_now_jakarta_error)

lemma handle_body_raises:
  assumes "handle_body L env upd w = (Inl e, w1)"
  shows "e = AttributeError \<or> e = UnicodeEncodeError \<or> e = ValueError \<or> e = OverflowError \<or>
         (\<exists>which. fault env which = Some e)"
  using assms process_text_raises
  by (fastforce simp: handle_body_def split: option.splits if_splits)

lemma handle_body_Exception:
  assumes "only_Exceptions env" "handle_body L env upd w = (Inl e, w1)"
  shows "is_Exception e"
  using handle_body_raises [OF assms(2)] assms(1) by (auto simp: only_Exceptions_def)

lemma handle_message_contained:
  assumes "only_Exceptions env"
  shows "fst (handle_message L env upd w) = None"
proof (cases "handle_body L env upd w")
  case (Pair res w1)
  show ?thesis
  proof (cases res)
    case (Inl e)
    then have "is_Exception e" using handle_body_Exception [OF assms] Pair by blast
    then show ?thesis using Pair Inl by (simp add: handle_message_def)
  next
    case (Inr u)
    then show ?thesis using Pair by (simp add: handle_message_def)
  qed
qed

lemma run_updates_contained:
  "\<forall>p\<in>set us. only_Exceptions (fst p) \<Longrightarrow> fst (run_updates L us w) = None"
proof (induction us arbitrary: w)
  case Nil
  then show ?case by simp
next
  case (Cons p us)
  obtain env upd where p: "p = (env, upd)" by (cases p)
  then have "fst (handle_message L env upd w) = None"
    using Cons.prems handle_message_contained by simp
  then obtain w' where "handle_message L env upd w = (None, w')"
    by (cases "handle_message L env upd w") simp
  then show ?case using Cons p by simp
qed

text \<open>A reply in the trace of a body that raised: the exception came from the sweep.\<close>

lemma process_text_reply_then_raise:
  assumes "process_text L env m usr s w = (Inl e, w1)"
  shows "\<exists>evs. trace w1 = trace w @ evs \<and>
           ((\<exists>c msg. Reply c msg \<in> set evs) \<longrightarrow>
              fault env OpDelete = Some e \<or> fault env OpCommitDelete = Some e)"
  using assms
  by (auto simp: handler_defs insert_or_replace_def
      split: sum.splits option.splits prod.splits)

lemma handle_body_reply_then_raise:
  assumes "handle_body L env upd w = (Inl e, w1)"
  shows "\<exists>evs. trace w1 = trace w @ evs \<and>
           ((\<exists>c msg. Reply c msg \<in> set evs) \<longrightarrow>
              fault env OpDelete = Some e \<or> fault env OpCommitDelete = Some e)"
proof -
  consider "w1 = w" | "\<exists>m usr s. process_text L env m usr s w = (Inl e, w1)"
    using assms by (auto simp: handle_body_def split: option.splits if_splits)
  then show ?thesis
  proof cases
    case 1
    then show ?thesis by simp
  next
    case 2
    then show ?thesis using process_text_reply_then_raise by blast
  qed
qed

text \<open>A repost one hour after the first post, in a call where one call fails.\<close>

lemma stored_fields:
  "timestamp stored_row = ''2026-02-22 10:21:23''"
  "message_text stored_row = ustr ''hello world''"
  "user_name stored_row = ustr ''A''"
  "msg_chat_id hello_by_A = 1"
  "display_name \<lparr>uid = 7, first_name = ustr ''A''\<rparr> = ustr ''A''"
  by (simp_all add: stored_row_def hello_by_A_def display_name_def ustr_def)

lemma strptime_stored_text:
  "strptime_db ''2026-02-22 10:21:23'' =
     Inr \<lparr>year = 2026, month = 2, day = 22, hour = 10, minute = 21, second = 23\<rparr>"
  using strptime_stored by (simp add: stored_fields)

lemma repost_body_prefix:
  assumes "fault env OpSelect = None" "select_now env = 1771734083"
  shows "process_text L env hello_by_A \<lparr>uid = 7, first_name = ustr ''A''\<rparr> (ustr ''hello world'')
           stored_world =
         and_then
           (and_then
              (duplicate_branch env hello_by_A \<lparr>uid = 7, first_name = ustr ''A''\<rparr> stored_row
                 (stored_world\<lparr>trace :=
                    [Select 1 hello_world_hash (Some ''2026-02-21 04:21:23'')]\<rparr>))
              (\<lambda>_ w2. and_then (db_delete env w2) (\<lambda>_ w3. db_commit env OpCommitDelete w3)))
           (\<lambda>x w. (Inr x, w))"
  using assms select_stored_hour
  by (simp add: process_text_def hash_hello_world db_select_def lookup_bound_hour and_then_def
        hello_by_A_def stored_world_def split: prod.splits sum.splits)


lemma repost_delete_fails_body:
  "handle_body L (env_failing 1771734083 OpDelete OperationalError) (Some hello_by_A) stored_world =
   (Inl OperationalError,
    \<lparr>rows = [stored_row], seq = 1,
     trace = [Select 1 hello_world_hash (Some ''2026-02-21 04:21:23''),
              Reply 1 notice_hour, LogInfo 1]\<rparr>)"
proof -
  have m: "from_user hello_by_A = Some \<lparr>uid = 7, first_name = ustr ''A''\<rparr>"
    "msg_text hello_by_A = Some (ustr ''hello world'')"
    by (simp_all add: hello_by_A_def)
  have e: "fault (env_failing 1771734083 OpDelete OperationalError) OpSelect = None"
    "select_now (env_failing 1771734083 OpDelete OperationalError) = 1771734083"
    "python_now (env_failing 1771734083 OpDelete OperationalError) = 1771734083"
    "fault (env_failing 1771734083 OpDelete OperationalError) OpReply = None"
    "fault (env_failing 1771734083 OpDelete OperationalError) OpDelete = Some OperationalError"
    by (simp_all add: env_failing_def)
  have s: "strftime_display \<lparr>year = 2026, month = 2, day = 22, hour = 10, minute = 21, second = 23\<rparr>
             = ''2026/02/22 10:21:23''"
    "strftime_display \<lparr>year = 2026, month = 2, day = 22, hour = 11, minute = 21, second = 23\<rparr>
             = ''2026/02/22 11:21:23''"
    by (simp_all add: strftime_display_def strftime_sep_def pad2_def pad4_def digit_char_def)
  show ?thesis
    unfolding handle_body_process [OF m length_hello_world] repost_body_prefix [OF e(1,2)]
    by (simp add: duplicate_branch_def stored_fields strptime_stored_text e jakarta_hour
          reply_text_def and_then_def stored_world_def db_delete_def s notice_hour_def)
qed

lemma repost_delete_fails:
  "handle_message L (env_failing 1771734083 OpDelete OperationalError) (Some hello_by_A)
     stored_world =
   (None, \<lparr>rows = [stored_row], seq = 1,
            trace = [Select 1 hello_world_hash (Some ''2026-02-21 04:21:23''),
                     Reply 1 notice_hour, LogInfo 1, LogError OperationalError]\<rparr>)"
  by (simp add: handle_message_def repost_delete_fails_body)

lemma only_Exceptions_env_at: "only_Exceptions (env_at t)"
  by (simp add: only_Exceptions_def env_at_def no_faults_def)

lemma only_Exceptions_env_failing: "is_Exception e \<Longrightarrow> only_Exceptions (env_failing t which e)"
  by (simp add: only_Exceptions_def env_failing_def)

text \<open>
  C9, as stated, fails on "the message is dropped without a reply". The handler sends the
  notice before it sweeps: when the \<^verbatim>\<open>DELETE\<close> of the sweep fails on a duplicate, the
  exception is caught and logged, and the notice has been sent already.
\<close>

theorem reply_before_fault_counterexample:
  "handle_message id (env_failing 1771734083 OpDelete OperationalError) (Some hello_by_A)
     stored_world =
   (None, \<lparr>rows = [stored_row], seq = 1,
            trace = [Select 1 hello_world_hash (Some ''2026-02-21 04:21:23''),
                     Reply 1 notice_hour, LogInfo 1, LogError OperationalError]\<rparr>)"
  by (rule repost_delete_fails)

text \<open>
  C9, amended. As long as what the calls raise derives from \<^verbatim>\<open>Exception\<close> (a failure of
  the storage, a stored time stamp that does not parse, a reply that cannot be delivered),
  no exception leaves the handler, on any sequence of updates, so a fault in one message
  leaves the messages after it to be handled. When the body of the handler raises, the
  handler logs the exception and returns with the state reached; a reply has been sent
  in such a call only if the exception came from the sweep, that is from the \<^verbatim>\<open>DELETE\<close> or
  from the \<^verbatim>\<open>commit\<close> after it.
\<close>

theorem exceptions_are_contained:
  "((\<forall>p\<in>set us. only_Exceptions (fst p)) \<longrightarrow> fst (run_updates L us w) = None)
   \<and> (only_Exceptions env \<and> handle_body L env upd w0 = (Inl e, w1) \<longrightarrow>
        handle_message L env upd w0 = (None, w1\<lparr>trace := trace w1 @ [LogError e]\<rparr>)
        \<and> (\<exists>evs. trace w1 = trace w0 @ evs \<and>
             ((\<exists>c msg. Reply c msg \<in> set evs) \<longrightarrow>
                fault env OpDelete = Some e \<or> fault env OpCommitDelete = Some e)))"
proof (intro conjI impI)
  assume "\<forall>p\<in>set us. only_Exceptions (fst p)"
  then show "fst (run_updates L us w) = None" by (rule run_updates_contained)
next
  assume a: "only_Exceptions env \<and> handle_body L env upd w0 = (Inl e, w1)"
  then have "is_Exception e" using handle_body_Exception by blast
  then show "handle_message L env upd w0 = (None, w1\<lparr>trace := trace w1 @ [LogError e]\<rparr>)"
    using a by (simp add: handle_message_def)
next
  assume a: "only_Exceptions env \<and> handle_body L env upd w0 = (Inl e, w1)"
  then show "\<exists>evs. trace w1 = trace w0 @ evs \<and>
             ((\<exists>c msg. Reply c msg \<in> set evs) \<longrightarrow>
                fault env OpDelete = Some e \<or> fault env OpCommitDelete = Some e)"
    using handle_body_reply_then_raise by blast
qed

theorem exceptions_are_contained_witness:
  "is_Exception OperationalError
   \<and> fst (run_updates id
            [(env_failing 1771734083 OpDelete OperationalError, Some hello_by_A),
             (env_at 1771734083, Some hello_by_A)] stored_world) = None
   \<and> handle_body id (env_failing 1771734083 OpDelete OperationalError) (Some hello_by_A)
        stored_world =
      (Inl OperationalError,
       \<lparr>rows = [stored_row], seq = 1,
        trace = [Select 1 hello_world_hash (Some ''2026-02-21 04:21:23''),
                 Reply 1 notice_hour, LogInfo 1]\<rparr>)
   \<and> handle_message id (env_failing 1771734083 OpDelete OperationalError) (Some hello_by_A)
        stored_world =
      (None,
       \<lparr>rows = [stored_row], seq = 1,
        trace = [Select 1 hello_world_hash (Some ''2026-02-21 04:21:23''),
                 Reply 1 notice_hour, LogInfo 1, LogError OperationalError]\<rparr>)
   \<and> fault (env_failing 1771734083 OpDelete OperationalError) OpDelete = Some OperationalError"
proof -
  have o: "only_Exceptions (env_failing 1771734083 OpDelete OperationalError)"
    by (simp add: only_Exceptions_env_failing)
  have a: "\<forall>p\<in>set [(env_failing 1771734083 OpDelete OperationalError, Some hello_by_A),
              (env_at 1771734083, Some hello_by_A)]. only_Exceptions (fst p)"
    using o only_Exceptions_env_at by simp
  note b = repost_delete_fails_body [of id]
  note T = exceptions_are_contained
    [where us = "[(env_failing 1771734083 OpDelete OperationalError, Some hello_by_A),
              (env_at 1771734083, Some hello_by_A)]" and L = id and w = stored_world
       and env = "env_failing 1771734083 OpDelete OperationalError" and upd = "Some hello_by_A"
       and ?w0.0 = stored_world and e = OperationalError
       and ?w1.0 = "\<lparr>rows = [stored_row], seq = 1,
        trace = [Select 1 hello_world_hash (Some ''2026-02-21 04:21:23''),
                 Reply 1 notice_hour, LogInfo 1]\<rparr>"]
  have 1: "fst (run_updates id
            [(env_failing 1771734083 OpDelete OperationalError, Some hello_by_A),
             (env_at 1771734083, Some hello_by_A)] stored_world) = None"
    using T a by blast
  have 2: "handle_message id (env_failing 1771734083 OpDelete OperationalError) (Some hello_by_A)
        stored_world =
      (None,
       \<lparr>rows = [stored_row], seq = 1,
        trace = [Select 1 hello_world_hash (Some ''2026-02-21 04:21:23''),
                 Reply 1 notice_hour, LogInfo 1]\<rparr>
       \<lparr>trace := trace \<lparr>rows = [stored_row], seq = 1,
        trace = [Select 1 hello_world_hash (Some ''2026-02-21 04:21:23''),
                 Reply 1 notice_hour, LogInfo 1]\<rparr> @ [LogError OperationalError]\<rparr>)"
    using T o b by blast
  have 3: "fault (env_failing 1771734083 OpDelete OperationalError) OpDelete = Some OperationalError"
    by (simp add: env_failing_def)
  show ?thesis using 1 b 2 3 by simp
qed

subsection \<open>The sweep\<close>




subsection \<open>The rows\<close>

lemma process_text_duplicate_frame:
  assumes "generate_message_hash L s = Inr h" and "fault env OpSelect = None"
    and "select_recent (msg_chat_id m) h (sqlite_datetime_now (select_now env) 86400) (rows w)
         = Some r"
    and "process_text L env m usr s w = (res, w1)"
  shows "seq w1 = seq w \<and>
         (rows w1 = rows w \<or>
          rows w1 = delete_old (sqlite_datetime_now (delete_now env) 604800) (rows w)) \<and>
         (\<exists>evs. trace w1 = trace w @ evs \<and> (\<forall>x. Insert x \<notin> set evs))"
  using assms
  by (auto simp: handler_defs split: sum.splits option.splits prod.splits)

lemma select_recent_Some:
  "select_recent c h bound rs = Some r \<Longrightarrow>
   r \<in> set rs \<and> chat_id r = c \<and> message_hash r = h \<and> later_than bound (timestamp r)"
  by (auto simp: select_recent_def find_Some_iff)

text \<open>
  C3. When the lookup finds a row (Duplicate), the call performs no upsert, whatever
  happens afterwards: no \<^verbatim>\<open>INSERT\<close> runs and \<open>seq\<close> stays; the table after the call is
  the table before it, or that table without the rows that the sweep removed; so every row
  that is still there has all its fields as before. The row found is among them unless the
  sweep removed it.
\<close>

theorem duplicate_does_not_upsert:
  assumes "from_user m = Some usr" and "msg_text m = Some s" and "5 \<le> length (strip s)"
    and "generate_message_hash L s = Inr h" and "fault env OpSelect = None"
    and "select_recent (msg_chat_id m) h (sqlite_datetime_now (select_now env) 86400) (rows w)
         = Some r"
  shows "\<exists>e w' evs. handle_message L env (Some m) w = (e, w') \<and> seq w' = seq w \<and>
           (rows w' = rows w \<or>
            rows w' = delete_old (sqlite_datetime_now (delete_now env) 604800) (rows w)) \<and>
           trace w' = trace w @ evs \<and> (\<forall>x. Insert x \<notin> set evs) \<and>
           (r \<in> set (rows w') \<or>
            earlier_than (sqlite_datetime_now (delete_now env) 604800) (timestamp r))"
proof -
  obtain res w1 where b: "process_text L env m usr s w = (res, w1)"
    by (cases "process_text L env m usr s w")
  note F = process_text_duplicate_frame [OF assms(4,5,6) b]
  then obtain evs where evs: "trace w1 = trace w @ evs" "\<forall>x. Insert x \<notin> set evs" by blast
  have r: "r \<in> set (rows w)" using select_recent_Some [OF assms(6)] by simp
  have keep: "r \<in> set (rows w1) \<or>
            earlier_than (sqlite_datetime_now (delete_now env) 604800) (timestamp r)"
    using F r by (auto simp: delete_old_def)
  have hb: "handle_body L env (Some m) w = (res, w1)"
    using handle_body_process [OF assms(1,2,3)] b by simp
  show ?thesis
  proof (cases res)
    case (Inr u)
    then have "handle_message L env (Some m) w = (None, w1)"
      using hb by (simp add: handle_message_def)
    then show ?thesis using F evs keep by blast
  next
    case (Inl e)
    show ?thesis
    proof (cases "is_Exception e")
      case True
      then have "handle_message L env (Some m) w = (None, w1\<lparr>trace := trace w1 @ [LogError e]\<rparr>)"
        using hb Inl by (simp add: handle_message_def)
      moreover have "trace (w1\<lparr>trace := trace w1 @ [LogError e]\<rparr>) = trace w @ (evs @ [LogError e])"
        "\<forall>x. Insert x \<notin> set (evs @ [LogError e])"
        using evs by simp_all
      ultimately show ?thesis using F keep
        by (intro exI [of _ None] exI [of _ "w1\<lparr>trace := trace w1 @ [LogError e]\<rparr>"]
              exI [of _ "evs @ [LogError e]"]) simp
    next
      case False
      then have "handle_message L env (Some m) w = (Some e, w1)"
        using hb Inl by (simp add: handle_message_def)
      then show ?thesis using F evs keep by blast
    qed
  qed
qed

theorem duplicate_does_not_upsert_witness:
  "from_user hello_by_A = Some \<lparr>uid = 7, first_name = ustr ''A''\<rparr>
   \<and> msg_text hello_by_A = Some (ustr ''hello world'')
   \<and> 5 \<le> length (strip (ustr ''hello world''))
   \<and> generate_message_hash id (ustr ''hello world'') = Inr hello_world_hash
   \<and> fault (env_at 1771734083) OpSelect = None
   \<and> select_recent (msg_chat_id hello_by_A) hello_world_hash
        (sqlite_datetime_now (select_now (env_at 1771734083)) 86400) (rows stored_world)
      = Some stored_row
   \<and> (\<exists>e w' evs. handle_message id (env_at 1771734083) (Some hello_by_A) stored_world = (e, w')
         \<and> seq w' = seq stored_world
         \<and> (rows w' = rows stored_world \<or>
            rows w' = delete_old (sqlite_datetime_now (delete_now (env_at 1771734083)) 604800)
                        (rows stored_world))
         \<and> trace w' = trace stored_world @ evs \<and> (\<forall>x. Insert x \<notin> set evs)
         \<and> (stored_row \<in> set (rows w') \<or>
            earlier_than (sqlite_datetime_now (delete_now (env_at 1771734083)) 604800)
              (timestamp stored_row)))"
proof -
  have m: "from_user hello_by_A = Some \<lparr>uid = 7, first_name = ustr ''A''\<rparr>"
    "msg_text hello_by_A = Some (ustr ''hello world'')"
    by (simp_all add: hello_by_A_def)
  have f: "fault (env_at 1771734083) OpSelect = None"
    by (simp add: env_at_def no_faults_def)
  have r: "select_recent (msg_chat_id hello_by_A) hello_world_hash
        (sqlite_datetime_now (select_now (env_at 1771734083)) 86400) (rows stored_world)
      = Some stored_row"
    using select_stored_hour by (simp add: env_at_def lookup_bound_hour hello_by_A_def)
  note T = duplicate_does_not_upsert [OF m length_hello_world hash_hello_world f r]
  show ?thesis
    using m length_hello_world hash_hello_world [of id] f r T by blast
qed

lemma unique_after_insert:
  assumes "distinct (map row_key rs)" and "row_key r' = (c, h)"
  shows "distinct (map row_key (filter (\<lambda>x. \<not> (chat_id x = c \<and> message_hash x = h)) rs @ [r']))"
  using assms by (auto simp: distinct_map_filter row_key_def)

lemma process_text_unique:
  assumes "unique_keys w" and "process_text L env m usr s w = (res, w1)"
  shows "unique_keys w1"
  using assms
  by (auto simp: handler_defs insert_or_replace_def unique_keys_def delete_old_def
        distinct_map_filter row_key_def
      split: sum.splits option.splits prod.splits)

lemma handle_body_unique:
  assumes "unique_keys w" and "handle_body L env upd w = (res, w1)"
  shows "unique_keys w1"
proof -
  consider "w1 = w" | "\<exists>m usr s. process_text L env m usr s w = (res, w1)"
    using assms(2) by (auto simp: handle_body_def split: option.splits if_splits)
  then show ?thesis using assms(1) process_text_unique by cases auto
qed

lemma handle_message_unique:
  assumes "unique_keys w"
  shows "unique_keys (snd (handle_message L env upd w))"
proof -
  obtain res w1 where b: "handle_body L env upd w = (res, w1)"
    by (cases "handle_body L env upd w")
  then have "unique_keys w1" using handle_body_unique [OF assms] by blast
  then show ?thesis
    using b by (cases res) (auto simp: handle_message_def unique_keys_def)
qed

lemma run_updates_unique:
  "unique_keys w \<Longrightarrow> unique_keys (snd (run_updates L us w))"
proof (induction us arbitrary: w)
  case Nil
  then show ?case by simp
next
  case (Cons p us)
  obtain env upd where p: "p = (env, upd)" by (cases p)
  obtain e w' where h: "handle_message L env upd w = (e, w')"
    by (cases "handle_message L env upd w")
  then have u: "unique_keys w'" using handle_message_unique [OF Cons.prems, of L env upd] by simp
  show ?case
  proof (cases e)
    case None
    then show ?thesis using Cons.IH [OF u] p h by simp
  next
    case (Some x)
    then show ?thesis using u p h by simp
  qed
qed

lemma one_row_after_insert:
  assumes "chat_id r = c" and "message_hash r = h"
  shows "length (filter (\<lambda>x. chat_id x = c \<and> message_hash x = h)
                   (rows (insert_or_replace r w))) = 1"
proof -
  have "filter (\<lambda>x. chat_id x = c \<and> message_hash x = h)
          (filter (\<lambda>x. \<not> (chat_id x = c \<and> message_hash x = h)) (rows w)) = []"
    by (simp add: filter_empty_conv)
  then show ?thesis using assms by (simp add: insert_or_replace_def Let_def)
qed

lemma one_row_after_inserts:
  assumes "rs \<noteq> []" and "\<forall>r\<in>set rs. chat_id r = c \<and> message_hash r = h"
  shows "length (filter (\<lambda>x. chat_id x = c \<and> message_hash x = h)
                   (rows (fold insert_or_replace rs w))) = 1"
  using assms
proof (induction rs arbitrary: w)
  case Nil
  then show ?case by simp
next
  case (Cons r rs)
  show ?case
  proof (cases rs)
    case Nil
    then show ?thesis using Cons.prems one_row_after_insert by simp
  next
    case (Cons r' rs')
    then show ?thesis using Cons.IH [of "insert_or_replace r w"] Cons.prems by simp
  qed
qed

text \<open>
  C4. The constraint \<^verbatim>\<open>UNIQUE(chat_id, message_hash)\<close> is an invariant of the handler: if
  no two rows of the table have the same chat and hash before a call, none have after it,
  whatever the update, the clocks and the faults; the same holds after any sequence of
  calls, and so in every table reached from the empty one. After any non-empty sequence of
  \<^verbatim>\<open>INSERT OR REPLACE\<close> for one key, from any table, exactly one row has that key.
\<close>

theorem one_row_per_key:
  "(unique_keys w \<longrightarrow>
      unique_keys (snd (handle_message L env upd w)) \<and> unique_keys (snd (run_updates L us w)))
   \<and> unique_keys (snd (run_updates L us empty_world))
   \<and> (rs \<noteq> [] \<and> (\<forall>r\<in>set rs. chat_id r = c \<and> message_hash r = h) \<longrightarrow>
        length (filter (\<lambda>x. chat_id x = c \<and> message_hash x = h)
                  (rows (fold insert_or_replace rs w0))) = 1)"
proof (intro conjI impI)
  assume "unique_keys w"
  then show "unique_keys (snd (handle_message L env upd w))" by (rule handle_message_unique)
next
  assume "unique_keys w"
  then show "unique_keys (snd (run_updates L us w))" by (rule run_updates_unique)
next
  have "unique_keys empty_world" by (simp add: unique_keys_def empty_world_def)
  then show "unique_keys (snd (run_updates L us empty_world))" by (rule run_updates_unique)
next
  assume "rs \<noteq> [] \<and> (\<forall>r\<in>set rs. chat_id r = c \<and> message_hash r = h)"
  then show "length (filter (\<lambda>x. chat_id x = c \<and> message_hash x = h)
                  (rows (fold insert_or_replace rs w0))) = 1"
    using one_row_after_inserts by blast
qed

theorem one_row_per_key_witness:
  "unique_keys stored_world
   \<and> unique_keys (snd (handle_message id (env_at 1771734083) (Some hello_by_A) stored_world))
   \<and> unique_keys (snd (run_updates id
        [(env_at 1771730483, Some hello_by_A), (env_at 1771734083, Some hello_by_A)]
        stored_world))
   \<and> [stored_row, stored_row\<lparr>user_id := 8\<rparr>] \<noteq> []
   \<and> length (filter (\<lambda>x. chat_id x = 1 \<and> message_hash x = hello_world_hash)
               (rows (fold insert_or_replace [stored_row, stored_row\<lparr>user_id := 8\<rparr>]
                        stored_world))) = 1"
proof -
  have u: "unique_keys stored_world"
    by (simp add: unique_keys_def stored_world_def)
  have k: "[stored_row, stored_row\<lparr>user_id := 8\<rparr>] \<noteq> [] \<and>
           (\<forall>r\<in>set [stored_row, stored_row\<lparr>user_id := 8\<rparr>].
              chat_id r = 1 \<and> message_hash r = hello_world_hash)"
    by (simp add: stored_row_def)
  note T = one_row_per_key
    [where w = stored_world and L = id and env = "env_at 1771734083" and upd = "Some hello_by_A"
       and us = "[(env_at 1771730483, Some hello_by_A), (env_at 1771734083, Some hello_by_A)]"
       and rs = "[stored_row, stored_row\<lparr>user_id := 8\<rparr>]" and c = 1 and h = hello_world_hash
       and ?w0.0 = stored_world]
  have 1: "unique_keys (snd (handle_message id (env_at 1771734083) (Some hello_by_A) stored_world))
       \<and> unique_keys (snd (run_updates id
        [(env_at 1771730483, Some hello_by_A), (env_at 1771734083, Some hello_by_A)]
        stored_world))"
    using T u by blast
  have 2: "length (filter (\<lambda>x. chat_id x = 1 \<and> message_hash x = hello_world_hash)
               (rows (fold insert_or_replace [stored_row, stored_row\<lparr>user_id := 8\<rparr>]
                        stored_world))) = 1"
    using T k by blast
  show ?thesis using u 1 2 by simp
qed

subsection \<open>The two windows\<close>

lemma clock_24h_1s:
  "sqlite_datetime_now 1771816884 86400 = Some ''2026-02-22 03:21:24''"
  "sqlite_datetime_now 1771816884 604800 = Some ''2026-02-16 03:21:24''"
  "datetime_now_jakarta 1771816884 =
     Inr \<lparr>year = 2026, month = 2, day = 23, hour = 10, minute = 21, second = 24\<rparr>"
  by (simp_all add: time_eval)

lemma clock_7d_1s:
  "sqlite_datetime_now 1772335284 86400 = Some ''2026-02-28 03:21:24''"
  "sqlite_datetime_now 1772335284 604800 = Some ''2026-02-22 03:21:24''"
  "datetime_now_jakarta 1772335284 =
     Inr \<lparr>year = 2026, month = 3, day = 1, hour = 10, minute = 21, second = 24\<rparr>"
  by (simp_all add: time_eval)

lemma env_at_fields:
  "select_now (env_at t) = t" "python_now (env_at t) = t" "delete_now (env_at t) = t"
  "\<forall>which. fault (env_at t) which = None"
  by (simp_all add: env_at_def no_faults_def)

text \<open>The same text in the same chat 24 hours and one second after the first post.\<close>

lemma repost_after_24h_1s:
  "handle_message L (env_at 1771816884) (Some hello_by_A)
     \<lparr>rows = [stored_row], seq = 1, trace = tr\<rparr> =
   (None,
    \<lparr>rows = [stored_row], seq = 1,
     trace = tr @
       [Select 1 hello_world_hash (Some ''2026-02-22 03:21:24''),
        Reply 1 (response_message (ustr ''hello world'') (ustr ''A'') ''2026/02/22 10:21:23''
                   (ustr ''A'') ''2026/02/23 10:21:24''),
        LogInfo 1,
        Delete (Some ''2026-02-16 03:21:24''),
        Commit]\<rparr>)"
proof -
  have m: "from_user hello_by_A = Some \<lparr>uid = 7, first_name = ustr ''A''\<rparr>"
    "msg_text hello_by_A = Some (ustr ''hello world'')"
    by (simp_all add: hello_by_A_def)
  have r: "select_recent (msg_chat_id hello_by_A) hello_world_hash
             (sqlite_datetime_now (select_now (env_at 1771816884)) 86400)
             (rows \<lparr>rows = [stored_row], seq = 1, trace = tr\<rparr>) = Some stored_row"
    by (simp add: env_at_fields clock_24h_1s select_recent_def later_than_def stored_row_def
          hello_by_A_def)
  have n: "datetime_now_jakarta (python_now (env_at 1771816884)) =
     Inr \<lparr>year = 2026, month = 2, day = 23, hour = 10, minute = 21, second = 24\<rparr>"
    by (simp add: env_at_fields clock_24h_1s)
  have s: "strftime_display \<lparr>year = 2026, month = 2, day = 22, hour = 10, minute = 21, second = 23\<rparr>
             = ''2026/02/22 10:21:23''"
    "strftime_display \<lparr>year = 2026, month = 2, day = 23, hour = 10, minute = 21, second = 24\<rparr>
             = ''2026/02/23 10:21:24''"
    by (simp_all add: strftime_display_def strftime_sep_def pad2_def pad4_def digit_char_def)
  show ?thesis
    unfolding duplicate_cycle
      [OF m length_hello_world hash_hello_world env_at_fields(4) r strptime_stored n]
    by (simp add: env_at_fields clock_24h_1s s stored_fields delete_old_def earlier_than_def)
qed

text \<open>The same text in another chat seven days and one second after the first post.\<close>

lemma post_after_7d_1s:
  "handle_message L (env_at 1772335284) (Some hello_by_B)
     \<lparr>rows = [stored_row], seq = 1, trace = tr\<rparr> =
   (None,
    \<lparr>rows = [stored_row,
             \<lparr>row_id = 2, chat_id = 2, message_hash = hello_world_hash,
              message_text = ustr ''hello world'', user_id = 8,
              timestamp = ''2026-03-01 10:21:24'', user_name = ustr ''B''\<rparr>],
     seq = 2,
     trace = tr @
       [Select 2 hello_world_hash (Some ''2026-02-28 03:21:24''),
        Insert \<lparr>row_id = 2, chat_id = 2, message_hash = hello_world_hash,
                message_text = ustr ''hello world'', user_id = 8,
                timestamp = ''2026-03-01 10:21:24'', user_name = ustr ''B''\<rparr>,
        Commit,
        Delete (Some ''2026-02-22 03:21:24''),
        Commit]\<rparr>)"
proof -
  have m: "from_user hello_by_B = Some \<lparr>uid = 8, first_name = ustr ''B''\<rparr>"
    "msg_text hello_by_B = Some (ustr ''hello world'')"
    by (simp_all add: hello_by_B_def)
  have r: "select_recent (msg_chat_id hello_by_B) hello_world_hash
             (sqlite_datetime_now (select_now (env_at 1772335284)) 86400)
             (rows \<lparr>rows = [stored_row], seq = 1, trace = tr\<rparr>) = None"
    by (simp add: env_at_fields clock_7d_1s select_recent_def later_than_def stored_row_def
          hello_by_B_def)
  have n: "datetime_now_jakarta (python_now (env_at 1772335284)) =
     Inr \<lparr>year = 2026, month = 3, day = 1, hour = 10, minute = 21, second = 24\<rparr>"
    by (simp add: env_at_fields clock_7d_1s)
  have k: "timestamp stored_row = ''2026-02-22 10:21:23''" "chat_id stored_row = 1"
    "msg_chat_id hello_by_B = 2"
    "display_name \<lparr>uid = 8, first_name = ustr ''B''\<rparr> = ustr ''B''"
    by (simp_all add: stored_row_def hello_by_B_def display_name_def ustr_def)
  show ?thesis
    unfolding novel_cycle [OF m length_hello_world hash_hello_world env_at_fields(4) r n]
    by (simp add: env_at_fields clock_7d_1s k delete_old_def earlier_than_def
          strftime_db_def strftime_sep_def pad2_def pad4_def digit_char_def)
qed

text \<open>
  C1. The claim does not hold of the code. The handler stores the time of Jakarta
  (\<^verbatim>\<open>datetime.now(tz_jakarta)\<close>) and compares it, as text, with the UTC time of SQLite
  (\<^verbatim>\<open>datetime('now', '-1 day')\<close>), which is seven hours behind. User \<^verbatim>\<open>A\<close> posts
  \<^verbatim>\<open>"hello world"\<close> in chat 1 when the clock reads 1771730483, and the row is stored with
  the time stamp \<^verbatim>\<open>2026-02-22 10:21:23\<close>; the same text arrives 24 hours and one second
  later, at 1771816884, when it is \<^verbatim>\<open>2026-02-23 10:21:24\<close> in Jakarta. The lookup returns
  the row and the notice is sent, although the row is older than the window of 24 hours
  that the comment in the source announces.
\<close>

theorem record_older_than_24h_is_returned:
  "run_updates id
     [(env_at 1771730483, Some hello_by_A), (env_at 1771816884, Some hello_by_A)] empty_world =
   (None,
    \<lparr>rows = [stored_row], seq = 1,
     trace =
       [Select 1 hello_world_hash (Some ''2026-02-21 03:21:23''),
        Insert stored_row, Commit,
        Delete (Some ''2026-02-15 03:21:23''), Commit,
        Select 1 hello_world_hash (Some ''2026-02-22 03:21:24''),
        Reply 1 (response_message (ustr ''hello world'') (ustr ''A'') ''2026/02/22 10:21:23''
                   (ustr ''A'') ''2026/02/23 10:21:24''),
        LogInfo 1,
        Delete (Some ''2026-02-16 03:21:24''),
        Commit]\<rparr>)"
  by (simp only: run_updates.simps first_post repost_after_24h_1s prod.case option.case
        append.simps)

text \<open>
  C2. The claim does not hold of the code, for the same reason: the sweep compares the
  stored time of Jakarta with the UTC time of \<^verbatim>\<open>datetime("now", "-7 days")\<close>. The row of the
  first post is stored at 1771730483 with the time stamp \<^verbatim>\<open>2026-02-22 10:21:23\<close>; seven
  days and one second later, at 1772335284, a message in chat 2 is handled and the sweep
  runs with the bound \<^verbatim>\<open>2026-02-22 03:21:24\<close>. The row is more than seven days old and is
  still in the table after the sweep.
\<close>

theorem record_older_than_7d_is_kept:
  "run_updates id
     [(env_at 1771730483, Some hello_by_A), (env_at 1772335284, Some hello_by_B)] empty_world =
   (None,
    \<lparr>rows = [stored_row,
             \<lparr>row_id = 2, chat_id = 2, message_hash = hello_world_hash,
              message_text = ustr ''hello world'', user_id = 8,
              timestamp = ''2026-03-01 10:21:24'', user_name = ustr ''B''\<rparr>],
     seq = 2,
     trace =
       [Select 1 hello_world_hash (Some ''2026-02-21 03:21:23''),
        Insert stored_row, Commit,
        Delete (Some ''2026-02-15 03:21:23''), Commit,
        Select 2 hello_world_hash (Some ''2026-02-28 03:21:24''),
        Insert \<lparr>row_id = 2, chat_id = 2, message_hash = hello_world_hash,
                message_text = ustr ''hello world'', user_id = 8,
                timestamp = ''2026-03-01 10:21:24'', user_name = ustr ''B''\<rparr>,
        Commit,
        Delete (Some ''2026-02-22 03:21:24''),
        Commit]\<rparr>)"
  by (simp only: run_updates.simps first_post post_after_7d_1s prod.case option.case
        append.simps)

end
